theory Spec2Isabelle
  imports Main "HOL-Library.AList" "HOL-Library.Sublist"
begin

section \<open>Strings, paths and the file system\<close>

text \<open>
  The script \<^verbatim>\<open>evaluate.js\<close> works on file names, on the file system and on two external
  programs. A JavaScript string is represented by its UTF-8 encoding, a list of
  \<^typ>\<open>char\<close> (bytes): this is what the client decodes the texts of the service from and
  what \<^verbatim>\<open>fs.writeFileSync\<close> writes, so that the content of a file, a list of bytes as
  well, is the text written to it.

  A path is the list of its components below the root: \<^verbatim>\<open>/data/audio/a.mp3\<close> is
  \<open>[''data'', ''audio'', ''a.mp3'']\<close>. These are the absolute, normalised paths that
  \<^verbatim>\<open>path.resolve\<close> and \<^verbatim>\<open>path.join\<close> with a directory entry produce. Names are
  compared character by character: the file system tells \<^verbatim>\<open>a.WAV\<close> from \<^verbatim>\<open>a.wav\<close>.
\<close>

type_synonym path = "string list"

definition join :: "path \<Rightarrow> string \<Rightarrow> path" where
  \<comment> \<open>\<^verbatim>\<open>path.join(dir, name)\<close> for a name without a separator\<close>
  "join dir name = dir @ [name]"

definition dirname :: "path \<Rightarrow> path" where
  "dirname p = butlast p"

definition basename :: "path \<Rightarrow> string" where
  "basename p = (if p = [] then [] else last p)"

definition afterLastDot :: "string \<Rightarrow> string" where
  "afterLastDot name = rev (takeWhile (\<lambda>c. c \<noteq> CHR ''.'') (rev name))"

definition beforeLastDot :: "string \<Rightarrow> string" where
  "beforeLastDot name = rev (drop 1 (dropWhile (\<lambda>c. c \<noteq> CHR ''.'') (rev name)))"

definition hasExtension :: "string \<Rightarrow> bool" where
  \<comment> \<open>Node: there is an extension when the last dot is not the first character of the
      name and the name is not \<^verbatim>\<open>..\<close>\<close>
  "hasExtension name \<longleftrightarrow>
     CHR ''.'' \<in> set name \<and> beforeLastDot name \<noteq> [] \<and> name \<noteq> ''..''"

definition extname :: "path \<Rightarrow> string" where
  \<comment> \<open>\<^verbatim>\<open>path.extname\<close>: from the last dot of the last component to its end, or empty\<close>
  "extname p =
     (if hasExtension (basename p) then CHR ''.'' # afterLastDot (basename p) else [])"

definition basename_without :: "path \<Rightarrow> string \<Rightarrow> string" where
  \<comment> \<open>\<^verbatim>\<open>path.basename(p, suffix)\<close>: the last component, without the suffix when it ends
      with it and is longer than it\<close>
  "basename_without p sfx =
     (let b = basename p in
      if sfx \<noteq> [] \<and> length sfx < length b \<and> drop (length b - length sfx) b = sfx
      then take (length b - length sfx) b else b)"

definition toLowerChar :: "char \<Rightarrow> char" where
  \<comment> \<open>the ASCII letters; the extensions compared against are ASCII\<close>
  "toLowerChar c =
     (if 65 \<le> (of_char c :: nat) \<and> (of_char c :: nat) \<le> 90
      then char_of ((of_char c :: nat) + 32) else c)"

definition toLowerCase :: "string \<Rightarrow> string" where
  "toLowerCase s = map toLowerChar s"

fun str_includes :: "string \<Rightarrow> string \<Rightarrow> bool" where
  \<comment> \<open>\<^verbatim>\<open>haystack.includes(needle)\<close>\<close>
  "str_includes [] needle = (needle = [])"
| "str_includes (c # cs) needle = (prefix needle (c # cs) \<or> str_includes cs needle)"

datatype node = File string | Dir

type_synonym filesystem = "(path \<times> node) list"

datatype errno = ENOENT | ENOTDIR | EISDIR | EEXIST | ENOTEMPTY | EINVAL | EBUSY

definition stat :: "filesystem \<Rightarrow> path \<Rightarrow> node option" where
  \<comment> \<open>the root always exists\<close>
  "stat f p = (if p = [] then Some Dir else map_of f p)"

definition existsSync :: "filesystem \<Rightarrow> path \<Rightarrow> bool" where
  "existsSync f p \<longleftrightarrow> stat f p \<noteq> None"

section \<open>Chunked audio source\<close>

text \<open>
  \<^verbatim>\<open>fs.createReadStream(filePath, { highWaterMark: 4096 })\<close> hands out the file in
  reads of 4096 bytes until the end of the file; \<^verbatim>\<open>audioStreamGenerator\<close> wraps every
  read into \<^verbatim>\<open>{ AudioEvent: { AudioChunk: ... } }\<close>.
\<close>

function readChunks :: "nat \<Rightarrow> string \<Rightarrow> string list" where
  "readChunks n bs = (if n = 0 \<or> bs = [] then [] else take n bs # readChunks n (drop n bs))"
  by pat_completeness auto
termination
  by (relation "measure (\<lambda>(n, bs). length bs)") auto

declare readChunks.simps [simp del]

datatype audio_event = AudioEvent (AudioChunk: string)

definition highWaterMark :: nat where
  "highWaterMark = 4096"

definition audioStreamGenerator :: "filesystem \<Rightarrow> path \<Rightarrow> errno + audio_event list" where
  "audioStreamGenerator f filePath =
     (case stat f filePath of
        None \<Rightarrow> Inl ENOENT
      | Some Dir \<Rightarrow> Inl EISDIR
      | Some (File bs) \<Rightarrow> Inr (map AudioEvent (readChunks highWaterMark bs)))"

section \<open>File-system operations\<close>

text \<open>
  The operations of Node's \<^verbatim>\<open>fs\<close> module that the script calls, with the outcomes of
  the underlying POSIX calls that depend on the tree alone (permissions and I/O errors of
  the device are not modelled). An operation that throws returns \<open>Inl\<close>.
\<close>

fun mkdirs :: "path list \<Rightarrow> filesystem \<Rightarrow> errno + filesystem" where
  "mkdirs [] f = Inr f"
| "mkdirs (q # qs) f =
     (case stat f q of
        Some Dir \<Rightarrow> mkdirs qs f
      | Some (File _) \<Rightarrow> Inl (if qs = [] then EEXIST else ENOTDIR)
      | None \<Rightarrow> mkdirs qs ((q, Dir) # f))"

definition mkdirSync_recursive :: "path \<Rightarrow> filesystem \<Rightarrow> errno + filesystem" where
  \<comment> \<open>\<^verbatim>\<open>fs.mkdirSync(p, { recursive: true })\<close>: creates the missing ancestors, then \<open>p\<close>\<close>
  "mkdirSync_recursive p f = mkdirs (prefixes p) f"

definition mkdirSync :: "path \<Rightarrow> filesystem \<Rightarrow> errno + filesystem" where
  \<comment> \<open>\<^verbatim>\<open>fs.mkdirSync(p)\<close>: the parent must be a directory, and nothing may be at \<open>p\<close>\<close>
  "mkdirSync p f =
     (if p = [] then Inl EEXIST
      else
        (case stat f p of
           Some _ \<Rightarrow> Inl EEXIST
         | None \<Rightarrow>
             (case stat f (dirname p) of
                None \<Rightarrow> Inl ENOENT
              | Some (File _) \<Rightarrow> Inl ENOTDIR
              | Some Dir \<Rightarrow> Inr ((p, Dir) # f))))"

definition hasChildren :: "filesystem \<Rightarrow> path \<Rightarrow> bool" where
  "hasChildren f d \<longleftrightarrow> list_ex (\<lambda>(p, n). p \<noteq> [] \<and> butlast p = d) f"

definition moveTree :: "path \<Rightarrow> path \<Rightarrow> filesystem \<Rightarrow> filesystem" where
  "moveTree src dst f =
     map (\<lambda>(p, n). if prefix src p then (dst @ drop (length src) p, n) else (p, n))
       (filter (\<lambda>(p, n). \<not> prefix dst p) f)"

definition renameSync :: "path \<Rightarrow> path \<Rightarrow> filesystem \<Rightarrow> errno + filesystem" where
  "renameSync src dst f =
     (case stat f src of
        None \<Rightarrow> Inl ENOENT
      | Some n \<Rightarrow>
          if src = dst then Inr f
          else if src = [] \<or> dst = [] then Inl EBUSY
          else
            (case stat f (dirname dst) of
               None \<Rightarrow> Inl ENOENT
             | Some (File _) \<Rightarrow> Inl ENOTDIR
             | Some Dir \<Rightarrow>
                 (case n of
                    File bs \<Rightarrow>
                      (case stat f dst of
                         Some Dir \<Rightarrow> Inl EISDIR
                       | _ \<Rightarrow> Inr (AList.update dst (File bs) (AList.delete src f)))
                  | Dir \<Rightarrow>
                      (case stat f dst of
                         Some (File _) \<Rightarrow> Inl ENOTDIR
                       | Some Dir \<Rightarrow>
                           if hasChildren f dst then Inl ENOTEMPTY
                           else Inr (moveTree src dst f)
                       | None \<Rightarrow>
                           if prefix src dst then Inl EINVAL
                           else Inr (moveTree src dst f)))))"

definition writeFileSync :: "path \<Rightarrow> string \<Rightarrow> filesystem \<Rightarrow> errno + filesystem" where
  "writeFileSync p content f =
     (if p = [] then Inl EISDIR
      else
        (case stat f (dirname p) of
           None \<Rightarrow> Inl ENOENT
         | Some (File _) \<Rightarrow> Inl ENOTDIR
         | Some Dir \<Rightarrow>
             (case stat f p of
                Some Dir \<Rightarrow> Inl EISDIR
              | _ \<Rightarrow> Inr (AList.update p (File content) f))))"

definition openAppend :: "path \<Rightarrow> filesystem \<Rightarrow> errno + filesystem" where
  \<comment> \<open>opening a file with flag \<^verbatim>\<open>'a'\<close>: it is created, empty, when it does not exist\<close>
  "openAppend p f =
     (if p = [] then Inl EISDIR
      else
        (case stat f (dirname p) of
           None \<Rightarrow> Inl ENOENT
         | Some (File _) \<Rightarrow> Inl ENOTDIR
         | Some Dir \<Rightarrow>
             (case stat f p of
                Some Dir \<Rightarrow> Inl EISDIR
              | Some (File _) \<Rightarrow> Inr f
              | None \<Rightarrow> Inr ((p, File []) # f))))"

definition readdirSync :: "path \<Rightarrow> filesystem \<Rightarrow> errno + string list" where
  \<comment> \<open>the names of the entries of a directory, each once, in the order of the tree\<close>
  "readdirSync d f =
     (case stat f d of
        None \<Rightarrow> Inl ENOENT
      | Some (File _) \<Rightarrow> Inl ENOTDIR
      | Some Dir \<Rightarrow>
          Inr (remdups (map (\<lambda>(p, n). last p) (filter (\<lambda>(p, n). p \<noteq> [] \<and> butlast p = d) f))))"

fun splitOn :: "char \<Rightarrow> string \<Rightarrow> string list" where
  "splitOn c [] = [[]]"
| "splitOn c (x # xs) =
     (if x = c then [] # splitOn c xs
      else (case splitOn c xs of [] \<Rightarrow> [[x]] | y # ys \<Rightarrow> (x # y) # ys))"

fun normalizeSegments :: "path \<Rightarrow> string list \<Rightarrow> path" where
  "normalizeSegments acc [] = acc"
| "normalizeSegments acc (seg # segs) =
     (if seg = [] \<or> seg = ''.'' then normalizeSegments acc segs
      else if seg = ''..'' then normalizeSegments (butlast acc) segs
      else normalizeSegments (acc @ [seg]) segs)"

definition resolve :: "path \<Rightarrow> string \<Rightarrow> path" where
  \<comment> \<open>\<^verbatim>\<open>path.resolve(s)\<close> in the working directory \<open>wd\<close>\<close>
  "resolve wd s =
     normalizeSegments (if prefix ''/'' s then [] else wd) (splitOn (CHR ''/'') s)"

section \<open>The world: file system, console, external programs, transcription service\<close>

text \<open>
  The two external programs are run through \<^verbatim>\<open>execSync\<close>. The command lines the script
  builds are the three below; the quoting of the paths inside the command string is not
  modelled.
\<close>

datatype command =
    FfmpegCheck path  \<comment> \<open>\<^verbatim>\<open>ffmpeg -i "<input>" -f null - 2>&1\<close>\<close>
  | FfmpegConvert path path
      \<comment> \<open>\<^verbatim>\<open>ffmpeg -y -i "<input>" -ac 1 -ar 16000 -f wav -acodec pcm_s16le "<output>"\<close>\<close>
  | AsrEval path path  \<comment> \<open>\<^verbatim>\<open>asr-eval --original "<reference>" --generated "<hypothesis>" ...\<close>\<close>

datatype error =
    SystemError errno  \<comment> \<open>thrown by an \<^verbatim>\<open>fs\<close> call\<close>
  | ChildProcessError string string
      \<comment> \<open>thrown by \<^verbatim>\<open>execSync\<close> on a non-zero exit status, with the captured output\<close>
  | TypeError  \<comment> \<open>reading a property of \<^verbatim>\<open>undefined\<close>\<close>
  | ServiceError string  \<comment> \<open>raised by the transcription client or its result stream\<close>

record exec_result =
  exit_ok :: bool
  stdout :: string
  stderr :: string
  fs_after :: filesystem

text \<open>
  A result of the service carries its partial flag and its alternatives, each of which is
  represented by its \<^verbatim>\<open>Transcript\<close> text; an event carries a list of results.
\<close>

datatype result = Result (IsPartial: bool) (Alternatives: "string list")

datatype transcript_event = TranscriptEvent (Results: "result list")

datatype response =
    SendFailed error  \<comment> \<open>\<^verbatim>\<open>client.send\<close> rejects\<close>
  | ResultStream "transcript_event list" "error option"
      \<comment> \<open>the events of \<^verbatim>\<open>TranscriptResultStream\<close>, then its end or the error it throws\<close>

text \<open>
  The environment is a parameter of every function: what a command does to the file system
  and prints, what the service answers to an audio stream, and the working directory.
  Nothing is assumed about the first two.
\<close>

record env =
  shell :: "command \<Rightarrow> filesystem \<Rightarrow> exec_result"
  service :: "errno + audio_event list \<Rightarrow> response"
  cwd :: path

datatype console_line =
    Processing string  \<comment> \<open>log: \<^verbatim>\<open>Processing: <file>\<close>\<close>
  | SkippingFile string  \<comment> \<open>error: \<^verbatim>\<open>Skipping file due to conversion error: <file>\<close>\<close>
  | TranscriptionCompleted path  \<comment> \<open>log: \<^verbatim>\<open>Transcription completed: <outputPath>\<close>\<close>
  | ReferenceNotFound path  \<comment> \<open>warn: \<^verbatim>\<open>Warning: Reference file not found: ...\<close>\<close>
  | ResultsFor string string  \<comment> \<open>log: \<^verbatim>\<open>Results for <file>: ...\<close>\<close>
  | FailedToCalculateMetrics string  \<comment> \<open>error\<close>
  | FailedToTranscribe string  \<comment> \<open>error: \<^verbatim>\<open>Failed to transcribe <file>\<close>\<close>
  | ErrorProcessing string error  \<comment> \<open>error: \<^verbatim>\<open>Error processing <file>:\<close>\<close>
  | ErrorDuringTranscription error  \<comment> \<open>error: \<^verbatim>\<open>Error during transcription:\<close>\<close>
  | ErrorCalculatingMetrics error  \<comment> \<open>error: \<^verbatim>\<open>Error calculating metrics:\<close>\<close>
  | CheckingFormat path  \<comment> \<open>log: \<^verbatim>\<open>Checking audio file format: <inputPath>\<close>\<close>
  | AlreadyCompatible path  \<comment> \<open>log: \<^verbatim>\<open>Audio file is already compatible: ...\<close>\<close>
  | Converting path  \<comment> \<open>log: \<^verbatim>\<open>Converting incompatible or non-WAV audio file: ...\<close>\<close>
  | MovedOriginal path  \<comment> \<open>log: \<^verbatim>\<open>Moved original file to: <movedPath>\<close>\<close>
  | RenamedConverted string  \<comment> \<open>log: \<^verbatim>\<open>Renamed converted file to: <baseName>.wav\<close>\<close>
  | ErrorProcessingAudioFile path error  \<comment> \<open>error: \<^verbatim>\<open>Error processing audio file:\<close>\<close>
  | Usage  \<comment> \<open>error: \<^verbatim>\<open>Usage: node evaluate.js <audio_dir> <reference_dir>\<close>\<close>
  | DirectoriesDoNotExist  \<comment> \<open>error\<close>
  | UsingAudioDirectory path  \<comment> \<open>log\<close>
  | UsingReferenceDirectory path  \<comment> \<open>log\<close>

text \<open>
  \<open>execs\<close> lists the commands run so far and \<open>written\<close> the strings handed to
  \<^verbatim>\<open>resultStream.write\<close>, both in order.
\<close>

record world =
  files :: filesystem
  console :: "console_line list"
  execs :: "command list"
  written :: "string list"

definition say :: "console_line \<Rightarrow> world \<Rightarrow> world" where
  "say l w = w\<lparr>console := console w @ [l]\<rparr>"

text \<open>
  A statement that may throw maps the world to an error or a value, and the world it
  leaves behind: the effects done before a \<^verbatim>\<open>throw\<close> stay done. \<open>andThen\<close> is the
  sequencing of two statements, which stops at the first error.
\<close>

type_synonym 'a io = "world \<Rightarrow> (error + 'a) \<times> world"

definition ret :: "'a \<Rightarrow> 'a io" where
  "ret x w = (Inr x, w)"

definition andThen :: "'a io \<Rightarrow> ('a \<Rightarrow> 'b io) \<Rightarrow> 'b io" where
  "andThen m k w = (case m w of (Inl e, w') \<Rightarrow> (Inl e, w') | (Inr x, w') \<Rightarrow> k x w')"

definition consoleLog :: "console_line \<Rightarrow> unit io" where
  "consoleLog l w = (Inr (), say l w)"

definition execSync :: "env \<Rightarrow> command \<Rightarrow> string io" where
  "execSync E c w =
     (let r = shell E c (files w);
          w' = w\<lparr>files := fs_after r, execs := execs w @ [c]\<rparr>
      in (if exit_ok r then Inr (stdout r) else Inl (ChildProcessError (stdout r) (stderr r)), w'))"

definition fsStep :: "(filesystem \<Rightarrow> errno + filesystem) \<Rightarrow> unit io" where
  \<comment> \<open>a call of the \<^verbatim>\<open>fs\<close> module on the world\<close>
  "fsStep op w =
     (case op (files w) of
        Inl e \<Rightarrow> (Inl (SystemError e), w)
      | Inr f' \<Rightarrow> (Inr (), w\<lparr>files := f'\<rparr>))"

section \<open>Transcription session driver\<close>

text \<open>
  \<^verbatim>\<open>String.prototype.trim\<close> removes the white space and the line terminators of
  ECMAScript at both ends: TAB, LF, VT, FF, CR, the byte order mark U+FEFF, the line and
  paragraph separators U+2028 and U+2029, and the space separators (category Zs) U+0020,
  U+00A0, U+1680, U+2000 to U+200A, U+202F, U+205F and U+3000. On the UTF-8 encoding of a
  string these are the byte sequences \<open>whiteSpaces\<close>: none of them is the beginning of
  another, and each starts with a byte that only starts a character, so that removing them
  at the two ends of the bytes removes the characters at the two ends of the string.
\<close>

definition whiteSpaceCodePoints :: "nat list" where
  "whiteSpaceCodePoints =
     [0x09, 0x0A, 0x0B, 0x0C, 0x0D, 0x20, 0xA0, 0x1680,
      0x2000, 0x2001, 0x2002, 0x2003, 0x2004, 0x2005, 0x2006, 0x2007, 0x2008, 0x2009, 0x200A,
      0x2028, 0x2029, 0x202F, 0x205F, 0x3000, 0xFEFF]"

definition utf8 :: "nat \<Rightarrow> string" where
  \<comment> \<open>the UTF-8 encoding of a code point\<close>
  "utf8 cp =
     (if cp < 0x80 then [char_of cp]
      else if cp < 0x800 then [char_of (0xC0 + cp div 64), char_of (0x80 + cp mod 64)]
      else if cp < 0x10000 then
        [char_of (0xE0 + cp div 4096), char_of (0x80 + cp div 64 mod 64), char_of (0x80 + cp mod 64)]
      else
        [char_of (0xF0 + cp div 262144), char_of (0x80 + cp div 4096 mod 64),
         char_of (0x80 + cp div 64 mod 64), char_of (0x80 + cp mod 64)])"

definition whiteSpaces :: "string list" where
  \<comment> \<open>the encodings of the code points above, in their order
      (\<open>whiteSpaces_code_points\<close> below)\<close>
  "whiteSpaces =
     [[CHR 0x09], [CHR 0x0A], [CHR 0x0B], [CHR 0x0C], [CHR 0x0D], [CHR 0x20],
      [CHR 0xC2, CHR 0xA0], [CHR 0xE1, CHR 0x9A, CHR 0x80],
      [CHR 0xE2, CHR 0x80, CHR 0x80], [CHR 0xE2, CHR 0x80, CHR 0x81],
      [CHR 0xE2, CHR 0x80, CHR 0x82], [CHR 0xE2, CHR 0x80, CHR 0x83],
      [CHR 0xE2, CHR 0x80, CHR 0x84], [CHR 0xE2, CHR 0x80, CHR 0x85],
      [CHR 0xE2, CHR 0x80, CHR 0x86], [CHR 0xE2, CHR 0x80, CHR 0x87],
      [CHR 0xE2, CHR 0x80, CHR 0x88], [CHR 0xE2, CHR 0x80, CHR 0x89],
      [CHR 0xE2, CHR 0x80, CHR 0x8A], [CHR 0xE2, CHR 0x80, CHR 0xA8],
      [CHR 0xE2, CHR 0x80, CHR 0xA9], [CHR 0xE2, CHR 0x80, CHR 0xAF],
      [CHR 0xE2, CHR 0x81, CHR 0x9F], [CHR 0xE3, CHR 0x80, CHR 0x80],
      [CHR 0xEF, CHR 0xBB, CHR 0xBF]]"

definition leading :: "string list \<Rightarrow> string \<Rightarrow> nat" where
  \<comment> \<open>the length of the sequence of \<open>seqs\<close> that \<open>s\<close> begins with, 0 when there is none\<close>
  "leading seqs s = (case find (\<lambda>q. prefix q s) seqs of None \<Rightarrow> 0 | Some q \<Rightarrow> length q)"

function dropLeading :: "string list \<Rightarrow> string \<Rightarrow> string" where
  \<comment> \<open>removes the sequences of \<open>seqs\<close> at the beginning of \<open>s\<close>, as long as there is one\<close>
  "dropLeading seqs s =
     (if leading seqs s = 0 then s else dropLeading seqs (drop (leading seqs s) s))"
  by pat_completeness auto
termination
proof (relation "measure (\<lambda>(seqs, s). length s)")
  show "wf (measure (\<lambda>(seqs, s). length s))"
    by simp
next
  fix seqs :: "string list" and s :: string
  assume a: "leading seqs s \<noteq> 0"
  then obtain q where "find (\<lambda>q. prefix q s) seqs = Some q" and "leading seqs s = length q"
    by (auto simp: leading_def split: option.splits)
  then have "prefix q s"
    unfolding find_Some_iff by auto
  with a \<open>leading seqs s = length q\<close> have "s \<noteq> []"
    by auto
  with a show "((seqs, drop (leading seqs s) s), (seqs, s)) \<in> measure (\<lambda>(seqs, s). length s)"
    by simp
qed

declare dropLeading.simps [simp del]

definition trimStart :: "string \<Rightarrow> string" where
  "trimStart s = dropLeading whiteSpaces s"

definition trimEnd :: "string \<Rightarrow> string" where
  "trimEnd s = rev (dropLeading (map rev whiteSpaces) (rev s))"

definition trim :: "string \<Rightarrow> string" where
  \<comment> \<open>\<^verbatim>\<open>s.trim()\<close> removes white space at both ends\<close>
  "trim s = trimStart (trimEnd s)"

fun addResults :: "string \<Rightarrow> result list \<Rightarrow> error + string" where
  \<comment> \<open>the inner loop, lines 52 to 56; \<^verbatim>\<open>Alternatives[0].Transcript\<close> throws when there is
      no alternative\<close>
  "addResults transcript [] = Inr transcript"
| "addResults transcript (r # rs) =
     (if \<not> IsPartial r then
        (case Alternatives r of
           [] \<Rightarrow> Inl TypeError
         | a # _ \<Rightarrow> addResults (transcript @ a @ '' '') rs)
      else addResults transcript rs)"

fun addEvents :: "string \<Rightarrow> transcript_event list \<Rightarrow> error + string" where
  \<comment> \<open>the outer loop, lines 50 to 57\<close>
  "addEvents transcript [] = Inr transcript"
| "addEvents transcript (e # es) =
     (case addResults transcript (Results e) of
        Inl err \<Rightarrow> Inl err
      | Inr t \<Rightarrow> addEvents t es)"

definition transcribeAudio :: "env \<Rightarrow> path \<Rightarrow> world \<Rightarrow> string option \<times> world" where
  \<comment> \<open>\<open>None\<close> is the \<^verbatim>\<open>null\<close> of the catch block\<close>
  "transcribeAudio E filePath w =
     (case service E (audioStreamGenerator (files w) filePath) of
        SendFailed e \<Rightarrow> (None, say (ErrorDuringTranscription e) w)
      | ResultStream events ending \<Rightarrow>
          (case addEvents [] events of
             Inl e \<Rightarrow> (None, say (ErrorDuringTranscription e) w)
           | Inr transcript \<Rightarrow>
               (case ending of
                  Some e \<Rightarrow> (None, say (ErrorDuringTranscription e) w)
                | None \<Rightarrow> (Some (trim transcript), w))))"

section \<open>Metrics tool\<close>

definition truthy :: "string option \<Rightarrow> string option" where
  \<comment> \<open>\<^verbatim>\<open>if (s)\<close> for a string or \<^verbatim>\<open>null\<close>: \<^verbatim>\<open>null\<close> and the empty string are falsy\<close>
  "truthy s = (case s of None \<Rightarrow> None | Some t \<Rightarrow> if t = [] then None else Some t)"

definition calculateMetrics :: "env \<Rightarrow> path \<Rightarrow> path \<Rightarrow> world \<Rightarrow> string option \<times> world" where
  "calculateMetrics E referencePath hypothesisPath w =
     (let r = shell E (AsrEval referencePath hypothesisPath) (files w);
          w1 = w\<lparr>files := fs_after r, execs := execs w @ [AsrEval referencePath hypothesisPath]\<rparr>
      in if exit_ok r then (Some (stdout r), w1)
         else
           (let output = (if stdout r \<noteq> [] then stdout r else stderr r)
            in if output \<noteq> [] then (Some output, w1)
               else (None, say (ErrorCalculatingMetrics (ChildProcessError (stdout r) (stderr r))) w1)))"

section \<open>Format inspection and normalisation\<close>

definition reportsTarget :: "string \<Rightarrow> bool" where
  \<comment> \<open>the condition of lines 157 to 159 on the output of the probe\<close>
  "reportsTarget ffmpegOutput \<longleftrightarrow>
     str_includes ffmpegOutput ''pcm_s16le''
     \<and> str_includes ffmpegOutput ''16000 Hz''
     \<and> str_includes ffmpegOutput ''mono''"

definition isCompatible :: "env \<Rightarrow> path \<Rightarrow> string \<Rightarrow> bool io" where
  \<comment> \<open>lines 152 to 160: whether the \<^verbatim>\<open>return inputPath\<close> of line 162 is reached\<close>
  "isCompatible E inputPath ext =
     (if ext = ''wav''
      then andThen (execSync E (FfmpegCheck inputPath))
             (\<lambda>ffmpegOutput. ret (reportsTarget ffmpegOutput))
      else ret False)"

definition convertAndArchive ::
  "env \<Rightarrow> path \<Rightarrow> path \<Rightarrow> string \<Rightarrow> path \<Rightarrow> path \<Rightarrow> path io"
where
  \<comment> \<open>lines 166 to 185\<close>
  "convertAndArchive E inputPath dir baseName convertedPath olderDir =
     andThen (\<lambda>w. if \<not> existsSync (files w) olderDir
                  then fsStep (mkdirSync_recursive olderDir) w else ret () w) (\<lambda>_.
     andThen (consoleLog (Converting inputPath)) (\<lambda>_.
     andThen (execSync E (FfmpegConvert inputPath convertedPath)) (\<lambda>_.
     andThen (fsStep (renameSync inputPath (join olderDir (basename inputPath)))) (\<lambda>_.
     andThen (consoleLog (MovedOriginal (join olderDir (basename inputPath)))) (\<lambda>_.
     andThen (fsStep (renameSync convertedPath (join dir (baseName @ ''.wav'')))) (\<lambda>_.
     andThen (consoleLog (RenamedConverted (baseName @ ''.wav''))) (\<lambda>_.
     ret (join dir (baseName @ ''.wav'')))))))))"

definition ensureAudioCompatibility_try ::
  "env \<Rightarrow> path \<Rightarrow> path \<Rightarrow> string \<Rightarrow> string \<Rightarrow> path \<Rightarrow> path \<Rightarrow> path io"
where
  \<comment> \<open>the body of the \<^verbatim>\<open>try\<close> block, lines 149 to 185\<close>
  "ensureAudioCompatibility_try E inputPath dir ext baseName convertedPath olderDir =
     andThen (consoleLog (CheckingFormat inputPath)) (\<lambda>_.
     andThen (isCompatible E inputPath ext) (\<lambda>compatible.
     if compatible
     then andThen (consoleLog (AlreadyCompatible inputPath)) (\<lambda>_. ret inputPath)
     else convertAndArchive E inputPath dir baseName convertedPath olderDir))"

text \<open>The constants of lines 143 to 146 and 177, as functions of \<^verbatim>\<open>inputPath\<close>.\<close>

definition extension :: "path \<Rightarrow> string" where
  "extension inputPath = toLowerCase (drop 1 (extname inputPath))"

definition baseNameOf :: "path \<Rightarrow> string" where
  "baseNameOf inputPath = basename_without inputPath (extname inputPath)"

definition convertedPathOf :: "path \<Rightarrow> path" where
  "convertedPathOf inputPath = join (dirname inputPath) (baseNameOf inputPath @ ''.wav'')"

definition olderDirOf :: "path \<Rightarrow> path" where
  "olderDirOf inputPath = join (dirname inputPath) ''older''"

definition movedPathOf :: "path \<Rightarrow> path" where
  "movedPathOf inputPath = join (olderDirOf inputPath) (basename inputPath)"

definition ensureAudioCompatibility :: "env \<Rightarrow> path \<Rightarrow> world \<Rightarrow> path option \<times> world" where
  \<comment> \<open>\<open>None\<close> is the \<^verbatim>\<open>null\<close> of the catch block\<close>
  "ensureAudioCompatibility E inputPath w =
     (let dir = dirname inputPath;
          ext = extension inputPath;
          baseName = baseNameOf inputPath;
          convertedPath = convertedPathOf inputPath;
          olderDir = olderDirOf inputPath
      in case ensureAudioCompatibility_try E inputPath dir ext baseName convertedPath olderDir w of
           (Inl e, w') \<Rightarrow> (None, say (ErrorProcessingAudioFile inputPath e) w')
         | (Inr p, w') \<Rightarrow> (Some p, w'))"

section \<open>Batch orchestrator and command line\<close>

text \<open>
  \<^verbatim>\<open>output\<close> and \<^verbatim>\<open>results.txt\<close> are relative to the working directory.
\<close>

definition OUTPUT_DIR :: string where
  "OUTPUT_DIR = ''output''"

definition RESULTS_FILE :: string where
  "RESULTS_FILE = ''results.txt''"

definition SUPPORTED_AUDIO_FORMATS :: "string list" where
  "SUPPORTED_AUDIO_FORMATS = [''wav'', ''mp3'', ''m4a'', ''mp4'', ''flac'', ''ogg'']"

definition supported :: "string \<Rightarrow> bool" where
  \<comment> \<open>the filter of lines 90 to 94\<close>
  "supported file \<longleftrightarrow> extension [file] \<in> set SUPPORTED_AUDIO_FORMATS"

definition outputPathOf :: "env \<Rightarrow> string \<Rightarrow> path" where
  \<comment> \<open>line 100: \<^verbatim>\<open>output/<baseName>.txt\<close>, in the working directory\<close>
  "outputPathOf E file = join (join (cwd E) OUTPUT_DIR) (baseNameOf [file] @ ''.txt'')"

definition referencePathOf :: "path \<Rightarrow> string \<Rightarrow> path" where
  \<comment> \<open>line 99\<close>
  "referencePathOf referenceDir file = join referenceDir (baseNameOf [file] @ ''.txt'')"

definition processFile :: "env \<Rightarrow> path \<Rightarrow> path \<Rightarrow> string \<Rightarrow> world \<Rightarrow> world" where
  \<comment> \<open>the body of the loop, lines 97 to 135; \<open>[CHR 0x0A]\<close> is the line feed\<close>
  "processFile E audioDir referenceDir file w =
     (let baseName = baseNameOf [file];
          originalAudioPath = join audioDir file;
          referencePath = referencePathOf referenceDir file;
          outputPath = outputPathOf E file
      in case ensureAudioCompatibility E originalAudioPath (say (Processing file) w) of
           (None, w1) \<Rightarrow> say (SkippingFile file) w1
         | (Some audioPath, w1) \<Rightarrow>
             (case transcribeAudio E audioPath w1 of
                (transcript, w2) \<Rightarrow>
                  (case truthy transcript of
                     None \<Rightarrow> say (FailedToTranscribe file) w2
                   | Some text \<Rightarrow>
                       (case fsStep (writeFileSync outputPath text) w2 of
                          (Inl e, w3) \<Rightarrow> say (ErrorProcessing file e) w3
                        | (Inr _, w3) \<Rightarrow>
                            (let w4 = say (TranscriptionCompleted outputPath) w3
                             in if \<not> existsSync (files w4) referencePath
                                then say (ReferenceNotFound referencePath) w4
                                else
                                  (case calculateMetrics E referencePath outputPath w4 of
                                     (evaluationOutput, w5) \<Rightarrow>
                                       (case truthy evaluationOutput of
                                          None \<Rightarrow> say (FailedToCalculateMetrics file) w5
                                        | Some report \<Rightarrow>
                                            (let resultString =
                                                   ''File: '' @ baseName @ [CHR 0x0A] @ report @ [CHR 0x0A]
                                             in say (ResultsFor file resultString)
                                                  (w5\<lparr>written := written w5 @ [resultString]\<rparr>)))))))))"

fun processLoop :: "env \<Rightarrow> path \<Rightarrow> path \<Rightarrow> string list \<Rightarrow> world \<Rightarrow> world" where
  \<comment> \<open>\<^verbatim>\<open>for (const file of audioFiles)\<close>\<close>
  "processLoop E audioDir referenceDir [] w = w"
| "processLoop E audioDir referenceDir (file # rest) w =
     processLoop E audioDir referenceDir rest (processFile E audioDir referenceDir file w)"

text \<open>
  \<^verbatim>\<open>fs.createWriteStream\<close> (line 85) comes first and opens \<^verbatim>\<open>results.txt\<close>
  asynchronously: the listing of line 89 is taken before the file appears, and the file
  is there afterwards, also when the listing throws. When the file cannot be opened the
  stream emits an \<^verbatim>\<open>error\<close> event that nothing handles, which ends the process like a
  rejected \<^verbatim>\<open>processFiles\<close>; the model stops there and says nothing about how far the loop
  had got.
\<close>

definition processFiles :: "env \<Rightarrow> path \<Rightarrow> path \<Rightarrow> world \<Rightarrow> (error + unit) \<times> world" where
  "processFiles E audioDir referenceDir w =
     (let opened = openAppend (join (cwd E) RESULTS_FILE) (files w);
          w1 = (case opened of Inl e \<Rightarrow> w | Inr f1 \<Rightarrow> w\<lparr>files := f1\<rparr>)
      in case readdirSync audioDir (files w) of
           Inl e \<Rightarrow> (Inl (SystemError e), w1)
         | Inr entries \<Rightarrow>
             (case opened of
                Inl e \<Rightarrow> (Inl (SystemError e), w1)
              | Inr _ \<Rightarrow>
                  (Inr (), processLoop E audioDir referenceDir (filter supported entries) w1)))"

datatype outcome =
    Returned  \<comment> \<open>\<^verbatim>\<open>main\<close> ran to its end\<close>
  | Exited nat  \<comment> \<open>\<^verbatim>\<open>process.exit(n)\<close>\<close>
  | Rejected error  \<comment> \<open>the promise of \<^verbatim>\<open>main\<close> rejected, and nothing handles it\<close>
  | Threw error  \<comment> \<open>an exception while the module is loaded, which nothing catches\<close>

definition exitCode :: "outcome \<Rightarrow> nat" where
  \<comment> \<open>Node exits with 0 when the program ends, with 1 on an uncaught exception and on an
      unhandled rejection (the default since Node 15)\<close>
  "exitCode out =
     (case out of Returned \<Rightarrow> 0 | Exited n \<Rightarrow> n | Rejected _ \<Rightarrow> 1 | Threw _ \<Rightarrow> 1)"

definition argument :: "string list \<Rightarrow> nat \<Rightarrow> string option" where
  \<comment> \<open>\<^verbatim>\<open>process.argv[i]\<close>, \<^verbatim>\<open>undefined\<close> beyond the end\<close>
  "argument argv i = (if i < length argv then Some (argv ! i) else None)"

definition main :: "env \<Rightarrow> string list \<Rightarrow> world \<Rightarrow> outcome \<times> world" where
  \<comment> \<open>the function \<^verbatim>\<open>main\<close>, lines 192 to 218\<close>
  "main E argv w =
     (case (truthy (argument argv 2), truthy (argument argv 3)) of
        (Some audioDir, Some referenceDir) \<Rightarrow>
          (let resolvedAudioDir = resolve (cwd E) audioDir;
               resolvedReferenceDir = resolve (cwd E) referenceDir
           in if \<not> existsSync (files w) resolvedAudioDir
                 \<or> \<not> existsSync (files w) resolvedReferenceDir
              then (Exited 1, say DirectoriesDoNotExist w)
              else
                (case processFiles E resolvedAudioDir resolvedReferenceDir
                        (say (UsingReferenceDirectory resolvedReferenceDir)
                           (say (UsingAudioDirectory resolvedAudioDir) w)) of
                   (Inl e, w') \<Rightarrow> (Rejected e, w')
                 | (Inr _, w') \<Rightarrow> (Returned, w')))
      | _ \<Rightarrow> (Exited 1, say Usage w))"

text \<open>
  The script as a whole: when it is loaded it makes the directory \<^verbatim>\<open>output\<close>, unless
  something of that name is there already (lines 17 to 20), and then it calls \<^verbatim>\<open>main\<close>
  (line 220).
\<close>

definition ensureOutputDir :: "env \<Rightarrow> unit io" where
  \<comment> \<open>lines 17 to 20\<close>
  "ensureOutputDir E w =
     (if \<not> existsSync (files w) (join (cwd E) OUTPUT_DIR)
      then fsStep (mkdirSync (join (cwd E) OUTPUT_DIR)) w else ret () w)"

definition script :: "env \<Rightarrow> string list \<Rightarrow> world \<Rightarrow> outcome \<times> world" where
  "script E argv w =
     (case ensureOutputDir E w of
        (Inl e, w') \<Rightarrow> (Threw e, w')
      | (Inr _, w') \<Rightarrow> main E argv w')"

section \<open>Notions used in the statements\<close>

text \<open>
  The final results of an event stream, in the order of the stream, and the text the
  accumulator holds after them.
\<close>

definition finalResults :: "transcript_event list \<Rightarrow> result list" where
  "finalResults events = filter (\<lambda>r. \<not> IsPartial r) (concat (map Results events))"

definition finalText :: "transcript_event list \<Rightarrow> string" where
  "finalText events = concat (map (\<lambda>r. hd (Alternatives r) @ '' '') (finalResults events))"

definition claimed_transcript :: "transcript_event list \<Rightarrow> string" where
  \<comment> \<open>the transcript as the specification words it: only trailing white space is removed\<close>
  "claimed_transcript events = trimEnd (finalText events)"

text \<open>
  The file system on which the conversion runs: \<open>probed\<close> is what the probe of a
  \<^verbatim>\<open>wav\<close> file leaves, and \<open>olderReady f f1\<close> says that \<open>f1\<close> is \<open>f\<close> once the archive
  directory is there (lines 167 to 169 did not throw).
\<close>

definition probed :: "env \<Rightarrow> path \<Rightarrow> filesystem \<Rightarrow> filesystem" where
  "probed E inputPath f =
     (if extension inputPath = ''wav'' then fs_after (shell E (FfmpegCheck inputPath) f) else f)"

definition olderReady :: "path \<Rightarrow> filesystem \<Rightarrow> filesystem \<Rightarrow> bool" where
  "olderReady inputPath f f1 \<longleftrightarrow>
     (if existsSync f (olderDirOf inputPath) then f1 = f
      else mkdirSync_recursive (olderDirOf inputPath) f = Inr f1)"

text \<open>
  What is assumed of the media tool where a claim depends on it: the probe changes no
  file, and a conversion that succeeds writes a file with the property \<open>target\<close> at its
  output path and changes nothing else.
\<close>

definition readOnlyProbe :: "env \<Rightarrow> bool" where
  "readOnlyProbe E \<longleftrightarrow> (\<forall>p f. fs_after (shell E (FfmpegCheck p) f) = f)"

definition converterProduces :: "env \<Rightarrow> (string \<Rightarrow> bool) \<Rightarrow> bool" where
  "converterProduces E target \<longleftrightarrow>
     (\<forall>i out f. out \<noteq> [] \<and> exit_ok (shell E (FfmpegConvert i out) f) \<longrightarrow>
        (\<exists>c. target c \<and> stat (fs_after (shell E (FfmpegConvert i out) f)) out = Some (File c))
        \<and> (\<forall>p. p \<noteq> out \<longrightarrow> stat (fs_after (shell E (FfmpegConvert i out) f)) p = stat f p))"

text \<open>The files announced on the console by \<^verbatim>\<open>Processing: <file>\<close>, in order.\<close>

fun processed :: "console_line list \<Rightarrow> string list" where
  "processed [] = []"
| "processed (Processing file # ls) = file # processed ls"
| "processed (_ # ls) = processed ls"

text \<open>The world in which \<^verbatim>\<open>main\<close> is called, once the module is loaded.\<close>

definition loaded :: "env \<Rightarrow> world \<Rightarrow> world" where
  "loaded E w = snd (ensureOutputDir E w)"

section \<open>Concrete inputs\<close>

text \<open>
  A small tree, three media tools and a service with a fixed answer, on which the theorems
  below are instantiated.
\<close>

definition example_files :: filesystem where
  "example_files =
     [([''work''], Dir),
      ([''work'', ''output''], Dir),
      ([''work'', ''audio''], Dir),
      ([''work'', ''ref''], Dir),
      ([''work'', ''gold''], Dir),
      ([''work'', ''gold'', ''b.txt''], File ''hello world''),
      ([''work'', ''notes''], File ''n''),
      ([''work'', ''audio'', ''a.mp3''], File ''ID3''),
      ([''work'', ''audio'', ''b.wav''], File ''RIFX'')]"

definition example_world :: world where
  "example_world = \<lparr>files = example_files, console = [], execs = [], written = []\<rparr>"

definition blocked_world :: world where
  \<comment> \<open>\<^verbatim>\<open>output\<close> is a regular file\<close>
  "blocked_world =
     \<lparr>files = AList.update [''work'', ''output''] (File ''x'') example_files,
      console = [], execs = [], written = []\<rparr>"

definition bare_world :: world where
  \<comment> \<open>there is no \<^verbatim>\<open>output\<close> yet\<close>
  "bare_world =
     \<lparr>files = [([''work''], Dir), ([''work'', ''ref''], Dir)],
      console = [], execs = [], written = []\<rparr>"

definition result_of :: "bool \<Rightarrow> string \<Rightarrow> filesystem \<Rightarrow> exec_result" where
  "result_of ok out f = \<lparr>exit_ok = ok, stdout = out, stderr = [], fs_after = f\<rparr>"

fun converting_shell :: "command \<Rightarrow> filesystem \<Rightarrow> exec_result" where
  "converting_shell (FfmpegCheck p) f = result_of True ''Audio: pcm_s16le, 44100 Hz, stereo'' f"
| "converting_shell (FfmpegConvert i out) f = result_of True [] (AList.update out (File ''RIFF'') f)"
| "converting_shell (AsrEval r h) f = result_of True ''WER: 0'' f"

fun conforming_shell :: "command \<Rightarrow> filesystem \<Rightarrow> exec_result" where
  "conforming_shell (FfmpegCheck p) f = result_of True ''Audio: pcm_s16le, 16000 Hz, mono'' f"
| "conforming_shell (FfmpegConvert i out) f = result_of True [] (AList.update out (File ''RIFF'') f)"
| "conforming_shell (AsrEval r h) f = result_of True ''WER: 0'' f"

fun refusing_shell :: "command \<Rightarrow> filesystem \<Rightarrow> exec_result" where
  "refusing_shell (FfmpegCheck p) f = result_of True ''Audio: pcm_s16le, 44100 Hz, stereo'' f"
| "refusing_shell (FfmpegConvert i out) f = result_of False ''Output same as Input'' f"
| "refusing_shell (AsrEval r h) f = result_of True ''WER: 0'' f"

fun mute_metrics_shell :: "command \<Rightarrow> filesystem \<Rightarrow> exec_result" where
  "mute_metrics_shell (FfmpegCheck p) f = result_of True ''Audio: pcm_s16le, 16000 Hz, mono'' f"
| "mute_metrics_shell (FfmpegConvert i out) f = result_of True [] (AList.update out (File ''RIFF'') f)"
| "mute_metrics_shell (AsrEval r h) f = result_of False [] f"

fun failing_shell :: "command \<Rightarrow> filesystem \<Rightarrow> exec_result" where
  "failing_shell c f = result_of False [] f"

definition example_events :: "transcript_event list" where
  "example_events =
     [TranscriptEvent [Result True [''a'']], TranscriptEvent [Result False [''hello'']],
      TranscriptEvent [Result True [''b'']], TranscriptEvent [Result False [''world'']]]"

definition leading_space_events :: "transcript_event list" where
  "leading_space_events = [TranscriptEvent [Result False ['' hi'']]]"

definition partial_events :: "transcript_event list" where
  "partial_events = [TranscriptEvent [Result True [''hel'']], TranscriptEvent [Result False ['''']]]"

fun constant_service :: "response \<Rightarrow> errno + audio_event list \<Rightarrow> response" where
  "constant_service r audio = r"

definition environment :: "(command \<Rightarrow> filesystem \<Rightarrow> exec_result) \<Rightarrow> response \<Rightarrow> env" where
  "environment sh r = \<lparr>shell = sh, service = constant_service r, cwd = [''work'']\<rparr>"

section \<open>Properties of the chunked audio source\<close>

lemma readChunks_Nil [simp]: "readChunks n [] = []"
  by (simp add: readChunks.simps [of n "[]"])

lemma concat_readChunks: "0 < n \<Longrightarrow> concat (readChunks n bs) = bs"
proof (induction n bs rule: readChunks.induct)
  case (1 n bs)
  then show ?case
    by (cases "bs = []") (simp_all add: readChunks.simps [of n bs])
qed

lemma readChunks_lengths:
  "c \<in> set (readChunks n bs) \<Longrightarrow> 0 < length c \<and> length c \<le> n"
proof (induction n bs rule: readChunks.induct)
  case (1 n bs)
  then show ?case
    by (cases "n = 0 \<or> bs = []") (auto simp: readChunks.simps [of n bs])
qed

lemma readChunks_full:
  "i + 1 < length (readChunks n bs) \<Longrightarrow> length (readChunks n bs ! i) = n"
proof (induction n bs arbitrary: i rule: readChunks.induct)
  case (1 n bs)
  show ?case
  proof (cases "n = 0 \<or> bs = []")
    case True
    with "1.prems" show ?thesis by (simp add: readChunks.simps [of n bs])
  next
    case False
    then have unfold: "readChunks n bs = take n bs # readChunks n (drop n bs)"
      by (simp add: readChunks.simps [of n bs])
    show ?thesis
    proof (cases i)
      case 0
      with "1.prems" unfold have "readChunks n (drop n bs) \<noteq> []" by auto
      then have "drop n bs \<noteq> []" by (auto simp: readChunks.simps [of n "drop n bs"])
      then have "n < length bs" by simp
      with 0 unfold show ?thesis by simp
    next
      case (Suc j)
      with "1.prems" unfold have "j + 1 < length (readChunks n (drop n bs))" by simp
      with "1.IH" False have "length (readChunks n (drop n bs) ! j) = n" by blast
      with Suc unfold show ?thesis by simp
    qed
  qed
qed

text \<open>
  C7. For a file of \<open>S\<close> bytes the generator yields a finite list of chunks whose
  concatenation, in order, is the file's content; every chunk but the last holds exactly
  4096 bytes, and no chunk is empty or longer than 4096 bytes.
\<close>

theorem C7_chunks_reconstruct_file:
  assumes "stat f filePath = Some (File bs)"
  shows "\<exists>cs. audioStreamGenerator f filePath = Inr cs
           \<and> concat (map AudioChunk cs) = bs
           \<and> (\<forall>i. i + 1 < length cs \<longrightarrow> length (AudioChunk (cs ! i)) = 4096)
           \<and> (\<forall>c \<in> set cs. 0 < length (AudioChunk c) \<and> length (AudioChunk c) \<le> 4096)"
proof -
  let ?cs = "map AudioEvent (readChunks highWaterMark bs)"
  have m: "map AudioChunk ?cs = readChunks highWaterMark bs"
    by (simp add: comp_def)
  have "audioStreamGenerator f filePath = Inr ?cs"
    using assms by (simp add: audioStreamGenerator_def)
  moreover have "concat (map AudioChunk ?cs) = bs"
    unfolding m by (rule concat_readChunks) (simp add: highWaterMark_def)
  moreover have "\<forall>i. i + 1 < length ?cs \<longrightarrow> length (AudioChunk (?cs ! i)) = 4096"
    using readChunks_full [of _ highWaterMark bs] by (auto simp: highWaterMark_def)
  moreover have "\<forall>c \<in> set ?cs. 0 < length (AudioChunk c) \<and> length (AudioChunk c) \<le> 4096"
    using readChunks_lengths [of _ highWaterMark bs] by (auto simp: highWaterMark_def)
  ultimately show ?thesis by blast
qed

theorem C7_chunks_reconstruct_file_witness:
  "stat [([''a.wav''], File (replicate 5000 (CHR ''x'')))] [''a.wav'']
     = Some (File (replicate 5000 (CHR ''x'')))
   \<and> (\<exists>cs. audioStreamGenerator [([''a.wav''], File (replicate 5000 (CHR ''x'')))] [''a.wav''] = Inr cs
           \<and> concat (map AudioChunk cs) = replicate 5000 (CHR ''x'')
           \<and> (\<forall>i. i + 1 < length cs \<longrightarrow> length (AudioChunk (cs ! i)) = 4096)
           \<and> (\<forall>c \<in> set cs. 0 < length (AudioChunk c) \<and> length (AudioChunk c) \<le> 4096))"
proof -
  have h: "stat [([''a.wav''], File (replicate 5000 (CHR ''x'')))] [''a.wav'']
     = Some (File (replicate 5000 (CHR ''x'')))"
    by (simp add: stat_def)
  from h C7_chunks_reconstruct_file [OF h] show ?thesis by blast
qed
section \<open>Running the statements\<close>

lemma files_say [simp]: "files (say l w) = files w"
  by (simp add: say_def)

lemma execs_say [simp]: "execs (say l w) = execs w"
  by (simp add: say_def)

lemma written_say [simp]: "written (say l w) = written w"
  by (simp add: say_def)

lemma console_say [simp]: "console (say l w) = console w @ [l]"
  by (simp add: say_def)

lemma andThen_Inr:
  "andThen m k w = (Inr y, w'') \<longleftrightarrow> (\<exists>x w'. m w = (Inr x, w') \<and> k x w' = (Inr y, w''))"
  by (auto simp: andThen_def split: prod.splits sum.splits)

lemma ret_eq [simp]: "ret x w = (r, w') \<longleftrightarrow> r = Inr x \<and> w' = w"
  by (auto simp: ret_def)

lemma consoleLog_eq [simp]: "consoleLog l w = (r, w') \<longleftrightarrow> r = Inr () \<and> w' = say l w"
  by (auto simp: consoleLog_def)

lemma execSync_Inr:
  "execSync E c w = (Inr out, w') \<longleftrightarrow>
     exit_ok (shell E c (files w)) \<and> out = stdout (shell E c (files w))
     \<and> w' = w\<lparr>files := fs_after (shell E c (files w)), execs := execs w @ [c]\<rparr>"
  by (auto simp: execSync_def Let_def)

lemma fsStep_Inr:
  "fsStep op w = (Inr u, w') \<longleftrightarrow> (\<exists>f'. op (files w) = Inr f' \<and> w' = w\<lparr>files := f'\<rparr>)"
  by (auto simp: fsStep_def split: sum.splits)

lemma andThen_consoleLog: "andThen (consoleLog l) k w = k () (say l w)"
  by (simp add: andThen_def consoleLog_def)

lemma andThen_ret: "andThen (ret x) k w = k x w"
  by (simp add: andThen_def ret_def)

lemma andThen_execSync:
  "andThen (execSync E c) k w =
     (if exit_ok (shell E c (files w))
      then k (stdout (shell E c (files w)))
             (w\<lparr>files := fs_after (shell E c (files w)), execs := execs w @ [c]\<rparr>)
      else (Inl (ChildProcessError (stdout (shell E c (files w))) (stderr (shell E c (files w)))),
            w\<lparr>files := fs_after (shell E c (files w)), execs := execs w @ [c]\<rparr>))"
  by (simp add: andThen_def execSync_def Let_def)

lemma andThen_fsStep:
  "andThen (fsStep op) k w =
     (case op (files w) of
        Inl e \<Rightarrow> (Inl (SystemError e), w)
      | Inr f' \<Rightarrow> k () (w\<lparr>files := f'\<rparr>))"
  by (simp add: andThen_def fsStep_def split: sum.splits)

lemma andThen_cond:
  "andThen (\<lambda>w. if P w then m w else n w) k w = (if P w then andThen m k w else andThen n k w)"
  by (simp add: andThen_def)

lemmas run = andThen_consoleLog andThen_ret andThen_execSync andThen_fsStep andThen_cond

lemma isCompatible_run:
  "isCompatible E inputPath ext w =
     (if ext = ''wav'' then
        (if exit_ok (shell E (FfmpegCheck inputPath) (files w))
         then Inr (reportsTarget (stdout (shell E (FfmpegCheck inputPath) (files w))))
         else Inl (ChildProcessError (stdout (shell E (FfmpegCheck inputPath) (files w)))
                     (stderr (shell E (FfmpegCheck inputPath) (files w)))),
         w\<lparr>files := fs_after (shell E (FfmpegCheck inputPath) (files w)),
           execs := execs w @ [FfmpegCheck inputPath]\<rparr>)
      else (Inr False, w))"
  by (simp add: isCompatible_def run ret_def)

lemma ensure_run:
  "ensureAudioCompatibility E inputPath w =
     (case isCompatible E inputPath (extension inputPath) (say (CheckingFormat inputPath) w) of
        (Inl e, w1) \<Rightarrow> (None, say (ErrorProcessingAudioFile inputPath e) w1)
      | (Inr True, w1) \<Rightarrow> (Some inputPath, say (AlreadyCompatible inputPath) w1)
      | (Inr False, w1) \<Rightarrow>
          (case convertAndArchive E inputPath (dirname inputPath) (baseNameOf inputPath)
                  (convertedPathOf inputPath) (olderDirOf inputPath) w1 of
             (Inl e, w2) \<Rightarrow> (None, say (ErrorProcessingAudioFile inputPath e) w2)
           | (Inr p, w2) \<Rightarrow> (Some p, w2)))"
  by (simp add: ensureAudioCompatibility_def ensureAudioCompatibility_try_def Let_def
        andThen_def consoleLog_def ret_def split: prod.splits sum.splits bool.splits)

lemma convertAndArchive_Inr:
  assumes "convertAndArchive E inputPath (dirname inputPath) (baseNameOf inputPath)
             (convertedPathOf inputPath) (olderDirOf inputPath) w = (Inr p, w')"
  shows "\<exists>f1 f3.
      olderReady inputPath (files w) f1
    \<and> exit_ok (shell E (FfmpegConvert inputPath (convertedPathOf inputPath)) f1)
    \<and> renameSync inputPath (movedPathOf inputPath)
          (fs_after (shell E (FfmpegConvert inputPath (convertedPathOf inputPath)) f1)) = Inr f3
    \<and> renameSync (convertedPathOf inputPath) (convertedPathOf inputPath) f3 = Inr (files w')
    \<and> p = convertedPathOf inputPath"
  using assms
  unfolding convertAndArchive_def olderReady_def movedPathOf_def convertedPathOf_def
  by (auto simp: andThen_Inr execSync_Inr fsStep_Inr split: if_splits)

lemma try_normalized:
  assumes "ensureAudioCompatibility E inputPath w = (Some p, w')"
    and "extension inputPath \<noteq> ''wav'' \<or> \<not> reportsTarget (stdout (shell E (FfmpegCheck inputPath) (files w)))"
  shows "\<exists>f1 f3.
      olderReady inputPath (probed E inputPath (files w)) f1
    \<and> exit_ok (shell E (FfmpegConvert inputPath (convertedPathOf inputPath)) f1)
    \<and> renameSync inputPath (movedPathOf inputPath)
          (fs_after (shell E (FfmpegConvert inputPath (convertedPathOf inputPath)) f1)) = Inr f3
    \<and> renameSync (convertedPathOf inputPath) (convertedPathOf inputPath) f3 = Inr (files w')
    \<and> p = convertedPathOf inputPath"
proof (cases "extension inputPath = ''wav''")
  case True
  with assms have "convertAndArchive E inputPath (dirname inputPath) (baseNameOf inputPath)
             (convertedPathOf inputPath) (olderDirOf inputPath)
             ((say (CheckingFormat inputPath) w)
                \<lparr>files := fs_after (shell E (FfmpegCheck inputPath) (files w)),
                  execs := execs w @ [FfmpegCheck inputPath]\<rparr>) = (Inr p, w')"
    by (simp add: ensure_run isCompatible_run split: if_splits prod.splits sum.splits)
  from convertAndArchive_Inr [OF this] True show ?thesis by (simp add: probed_def)
next
  case False
  with assms have "convertAndArchive E inputPath (dirname inputPath) (baseNameOf inputPath)
             (convertedPathOf inputPath) (olderDirOf inputPath)
             (say (CheckingFormat inputPath) w) = (Inr p, w')"
    by (simp add: ensure_run isCompatible_run split: if_splits prod.splits sum.splits)
  from convertAndArchive_Inr [OF this] False show ?thesis by (simp add: probed_def)
qed

section \<open>File-system facts\<close>

lemma mkdirs_preserves:
  "mkdirs qs f = Inr f' \<Longrightarrow> stat f p = Some n \<Longrightarrow> stat f' p = Some n"
proof (induction qs arbitrary: f)
  case Nil
  then show ?case by simp
next
  case (Cons q qs)
  show ?case
  proof (cases "stat f q")
    case None
    with Cons.prems have m: "mkdirs qs ((q, Dir) # f) = Inr f'" by simp
    from None Cons.prems(2) have "q \<noteq> p" by auto
    with Cons.prems(2) have "stat ((q, Dir) # f) p = Some n" by (auto simp: stat_def)
    with Cons.IH m show ?thesis by blast
  next
    case (Some a)
    with Cons show ?thesis by (cases a) (auto split: if_splits)
  qed
qed

lemma olderReady_preserves:
  "olderReady inputPath f f1 \<Longrightarrow> stat f p = Some n \<Longrightarrow> stat f1 p = Some n"
  by (auto simp: olderReady_def mkdirSync_recursive_def split: if_splits dest: mkdirs_preserves)

lemma renameSync_file:
  assumes "renameSync src dst f = Inr f'" and "stat f src = Some (File bs)" and "src \<noteq> dst"
  shows "stat f' dst = Some (File bs)" and "stat f' src = None"
    and "\<And>p. p \<noteq> src \<Longrightarrow> p \<noteq> dst \<Longrightarrow> stat f' p = stat f p"
  using assms
  by (auto simp: renameSync_def stat_def update_conv' delete_conv'
           split: if_splits option.splits node.splits)

lemma renameSync_same:
  "renameSync p p f = Inr f' \<Longrightarrow> f' = f \<and> stat f p \<noteq> None"
  by (auto simp: renameSync_def split: option.splits)

lemma input_not_moved: "inputPath \<noteq> [] \<Longrightarrow> movedPathOf inputPath \<noteq> inputPath"
proof
  assume a: "inputPath \<noteq> []" and "movedPathOf inputPath = inputPath"
  then have "length (movedPathOf inputPath) = length inputPath" by simp
  then show False using a by (simp add: movedPathOf_def olderDirOf_def join_def dirname_def)
qed

lemma converted_not_moved: "inputPath \<noteq> [] \<Longrightarrow> movedPathOf inputPath \<noteq> convertedPathOf inputPath"
proof
  assume a: "inputPath \<noteq> []" and "movedPathOf inputPath = convertedPathOf inputPath"
  then have "length (movedPathOf inputPath) = length (convertedPathOf inputPath)" by simp
  then show False using a by (simp add: movedPathOf_def olderDirOf_def convertedPathOf_def join_def dirname_def)
qed

section \<open>Properties of the transcription session driver\<close>

lemma addResults_final:
  "\<forall>r \<in> set rs. \<not> IsPartial r \<longrightarrow> Alternatives r \<noteq> [] \<Longrightarrow>
   addResults acc rs =
     Inr (acc @ concat (map (\<lambda>r. hd (Alternatives r) @ '' '') (filter (\<lambda>r. \<not> IsPartial r) rs)))"
proof (induction rs arbitrary: acc)
  case Nil
  then show ?case by simp
next
  case (Cons r rs)
  then show ?case by (cases "Alternatives r") auto
qed

lemma addEvents_final:
  "\<forall>r \<in> set (finalResults es). Alternatives r \<noteq> [] \<Longrightarrow>
   addEvents acc es = Inr (acc @ finalText es)"
proof (induction es arbitrary: acc)
  case Nil
  then show ?case by (simp add: finalText_def finalResults_def)
next
  case (Cons e es)
  have a: "\<forall>r \<in> set (Results e). \<not> IsPartial r \<longrightarrow> Alternatives r \<noteq> []"
    using Cons.prems by (auto simp: finalResults_def)
  have b: "\<forall>r \<in> set (finalResults es). Alternatives r \<noteq> []"
    using Cons.prems by (auto simp: finalResults_def)
  show ?case
    using Cons.IH [OF b] addResults_final [OF a]
    by (simp add: finalText_def finalResults_def)
qed

lemma whiteSpaces_code_points: "whiteSpaces = map utf8 whiteSpaceCodePoints"
  by (simp add: whiteSpaces_def whiteSpaceCodePoints_def utf8_def char_of_def bit_0)

lemma trim_no_break_space:
  "trim ([CHR 0xC2, CHR 0xA0] @ '' hi'' @ [CHR 0xE3, CHR 0x80, CHR 0x80, CHR 0xEF, CHR 0xBB, CHR 0xBF, CHR 0x0A])
     = ''hi''"
  by code_simp

lemma transcribeAudio_completed:
  assumes "service E (audioStreamGenerator (files w) filePath) = ResultStream events None"
    and "\<forall>r \<in> set (finalResults events). Alternatives r \<noteq> []"
  shows "transcribeAudio E filePath w = (Some (trim (finalText events)), w)"
  using assms(1) addEvents_final [OF assms(2), of "[]"]
  by (simp add: transcribeAudio_def)

text \<open>
  C5, as amended. When the result stream ends without an error and every final result has
  an alternative, \<^verbatim>\<open>transcribeAudio\<close> returns the texts of the first alternatives of the
  final results, in the order of the stream, each followed by one space, with the white
  space at both ends of the whole removed; partial results add nothing, and the world is
  left as it was. On the sequence partial a, final hello, partial b, final world this is
  \<^verbatim>\<open>hello world\<close> (the witness).
\<close>

theorem C5_transcript_of_final_results:
  assumes "service E (audioStreamGenerator (files w) filePath) = ResultStream events None"
    and "\<forall>r \<in> set (finalResults events). Alternatives r \<noteq> []"
  shows "transcribeAudio E filePath w = (Some (trim (finalText events)), w)"
  using assms by (rule transcribeAudio_completed)

theorem C5_transcript_of_final_results_witness:
  "transcribeAudio (environment converting_shell (ResultStream example_events None))
     [''work'', ''audio'', ''b.wav''] example_world
   = (Some ''hello world'', example_world)"
proof -
  let ?E = "environment converting_shell (ResultStream example_events None)"
  have h1: "service ?E (audioStreamGenerator (files example_world) [''work'', ''audio'', ''b.wav''])
      = ResultStream example_events None"
    by (simp add: environment_def)
  have h2: "\<forall>r \<in> set (finalResults example_events). Alternatives r \<noteq> []"
    by (simp add: finalResults_def example_events_def)
  have t: "trim (finalText example_events) = ''hello world''"
    by code_simp
  from C5_transcript_of_final_results [OF h1 h2] t show ?thesis by simp
qed

text \<open>
  The claim as worded (only trailing white space removed) fails when the first final text
  starts with white space: for the single final result with the text \<^verbatim>\<open>" hi"\<close> the driver
  returns \<^verbatim>\<open>"hi"\<close>, the wording gives \<^verbatim>\<open>" hi"\<close>.
\<close>

theorem C5_leading_space_counterexample:
  "fst (transcribeAudio (environment converting_shell (ResultStream leading_space_events None))
         [''work'', ''audio'', ''b.wav''] example_world) = Some ''hi''
   \<and> claimed_transcript leading_space_events = '' hi''
   \<and> fst (transcribeAudio (environment converting_shell (ResultStream leading_space_events None))
         [''work'', ''audio'', ''b.wav''] example_world)
       \<noteq> Some (claimed_transcript leading_space_events)"
  by code_simp

text \<open>
  C6. When the result stream ends with an error, \<^verbatim>\<open>transcribeAudio\<close> returns \<^verbatim>\<open>null\<close>
  (\<open>None\<close>), whatever events came before the error, in particular when no final result
  did; it does not return the empty string.
\<close>

theorem C6_stream_error_returns_null:
  assumes "service E (audioStreamGenerator (files w) filePath) = ResultStream events (Some e)"
  shows "fst (transcribeAudio E filePath w) = None
       \<and> fst (transcribeAudio E filePath w) \<noteq> Some []"
  using assms by (simp add: transcribeAudio_def split: sum.splits)

theorem C6_stream_error_returns_null_witness:
  "fst (transcribeAudio
          (environment converting_shell
             (ResultStream [TranscriptEvent [Result True [''hel'']]] (Some (ServiceError ''reset''))))
          [''work'', ''audio'', ''b.wav''] example_world) = None"
proof -
  let ?E = "environment converting_shell
             (ResultStream [TranscriptEvent [Result True [''hel'']]] (Some (ServiceError ''reset'')))"
  have h: "service ?E (audioStreamGenerator (files example_world) [''work'', ''audio'', ''b.wav''])
      = ResultStream [TranscriptEvent [Result True [''hel'']]] (Some (ServiceError ''reset''))"
    by (simp add: environment_def)
  from C6_stream_error_returns_null [OF h] show ?thesis by simp
qed

section \<open>Properties of format inspection and normalisation\<close>

text \<open>
  C1. Let the input be a regular file that is not found compatible (its extension is not
  \<^verbatim>\<open>wav\<close>, or the output of the probe lacks one of the three markers), let the probe
  change no file and let a successful conversion write a file with the property
  \<open>target\<close> at its output path and nothing else. If \<^verbatim>\<open>ensureAudioCompatibility\<close> returns a
  path, then the path is \<^verbatim>\<open><dir>/<baseName>.wav\<close>, the file there has the property
  \<open>target\<close>, and \<^verbatim>\<open><dir>/older/<original name>\<close> holds the original content.
\<close>

theorem C1_normalized_file_archived_and_converted:
  assumes probe: "readOnlyProbe E"
    and conv: "converterProduces E target"
    and input: "stat (files w) inputPath = Some (File original)"
    and nonconforming: "extension inputPath \<noteq> ''wav''
        \<or> \<not> reportsTarget (stdout (shell E (FfmpegCheck inputPath) (files w)))"
    and completed: "ensureAudioCompatibility E inputPath w = (Some p, w')"
  shows "p = join (dirname inputPath) (baseNameOf inputPath @ ''.wav'')
       \<and> stat (files w') (join (join (dirname inputPath) ''older'') (basename inputPath))
           = Some (File original)
       \<and> (\<exists>c. target c \<and> stat (files w') p = Some (File c))"
proof -
  from input have ne: "inputPath \<noteq> []" by (auto simp: stat_def)
  let ?conv = "convertedPathOf inputPath"
  let ?moved = "movedPathOf inputPath"
  from try_normalized [OF completed nonconforming] obtain f1 f3 where
    ready: "olderReady inputPath (probed E inputPath (files w)) f1"
    and ok: "exit_ok (shell E (FfmpegConvert inputPath ?conv) f1)"
    and r1: "renameSync inputPath ?moved (fs_after (shell E (FfmpegConvert inputPath ?conv) f1)) = Inr f3"
    and r2: "renameSync ?conv ?conv f3 = Inr (files w')"
    and p: "p = ?conv"
    by blast
  let ?f2 = "fs_after (shell E (FfmpegConvert inputPath ?conv) f1)"
  from probe have "probed E inputPath (files w) = files w"
    by (simp add: probed_def readOnlyProbe_def)
  with ready input have in1: "stat f1 inputPath = Some (File original)"
    by (auto dest: olderReady_preserves)
  have "convertedPathOf inputPath \<noteq> []" by (simp add: convertedPathOf_def join_def)
  with conv ok obtain c where c: "target c" "stat ?f2 ?conv = Some (File c)"
    and frame: "\<And>q. q \<noteq> ?conv \<Longrightarrow> stat ?f2 q = stat f1 q"
    unfolding converterProduces_def by blast
  from r2 have f3: "files w' = f3" and ex: "stat f3 ?conv \<noteq> None"
    using renameSync_same by blast+
  have distinct: "inputPath \<noteq> ?conv"
  proof
    assume eq: "inputPath = ?conv"
    with c have "stat ?f2 inputPath = Some (File c)" by simp
    from renameSync_file(2) [OF r1 this] input_not_moved [OF ne]
    have "stat f3 inputPath = None" by simp
    with ex eq show False by simp
  qed
  with frame in1 have in2: "stat ?f2 inputPath = Some (File original)" by simp
  from renameSync_file(1) [OF r1 in2] input_not_moved [OF ne]
  have archived: "stat f3 ?moved = Some (File original)" by simp
  from renameSync_file(3) [OF r1 in2, of ?conv] input_not_moved [OF ne] distinct
    converted_not_moved [OF ne] c
  have "stat f3 ?conv = Some (File c)" by simp
  with archived c f3 p show ?thesis
    by (auto simp: convertedPathOf_def movedPathOf_def olderDirOf_def)
qed

theorem C1_normalized_file_archived_and_converted_witness:
  "stat (files (snd (ensureAudioCompatibility
                       (environment converting_shell (ResultStream example_events None))
                       [''work'', ''audio'', ''a.mp3''] example_world)))
       [''work'', ''audio'', ''older'', ''a.mp3''] = Some (File ''ID3'')
   \<and> stat (files (snd (ensureAudioCompatibility
                       (environment converting_shell (ResultStream example_events None))
                       [''work'', ''audio'', ''a.mp3''] example_world)))
       [''work'', ''audio'', ''a.wav''] = Some (File ''RIFF'')"
proof -
  let ?E = "environment converting_shell (ResultStream example_events None)"
  let ?i = "[''work'', ''audio'', ''a.mp3'']"
  have probe: "readOnlyProbe ?E"
    by (simp add: readOnlyProbe_def environment_def result_of_def)
  have conv: "converterProduces ?E (\<lambda>c. c = ''RIFF'')"
    by (simp add: converterProduces_def environment_def result_of_def stat_def update_conv')
  have input: "stat (files example_world) ?i = Some (File ''ID3'')"
    by code_simp
  have nonconforming: "extension ?i \<noteq> ''wav''
      \<or> \<not> reportsTarget (stdout (shell ?E (FfmpegCheck ?i) (files example_world)))"
    by code_simp
  have "fst (ensureAudioCompatibility ?E ?i example_world) = Some [''work'', ''audio'', ''a.wav'']"
    by code_simp
  then have completed: "ensureAudioCompatibility ?E ?i example_world
      = (Some [''work'', ''audio'', ''a.wav''], snd (ensureAudioCompatibility ?E ?i example_world))"
    by (simp add: prod_eq_iff)
  have "basename ?i = ''a.mp3''" "dirname ?i = [''work'', ''audio'']"
    by (simp_all add: basename_def dirname_def)
  with C1_normalized_file_archived_and_converted [OF probe conv input nonconforming completed]
  show ?thesis by (auto simp: join_def)
qed

lemma convertAndArchive_conversion_fails:
  assumes "olderReady inputPath (files w) f1"
    and "\<not> exit_ok (shell E (FfmpegConvert inputPath convertedPath) f1)"
  shows "convertAndArchive E inputPath dir baseName convertedPath (olderDirOf inputPath) w =
     (Inl (ChildProcessError (stdout (shell E (FfmpegConvert inputPath convertedPath) f1))
             (stderr (shell E (FfmpegConvert inputPath convertedPath) f1))),
      w\<lparr>files := fs_after (shell E (FfmpegConvert inputPath convertedPath) f1),
        execs := execs w @ [FfmpegConvert inputPath convertedPath],
        console := console w @ [Converting inputPath]\<rparr>)"
proof (cases "existsSync (files w) (olderDirOf inputPath)")
  case True
  with assms have "f1 = files w" by (simp add: olderReady_def)
  with True assms(2) show ?thesis
    by (simp add: convertAndArchive_def run say_def)
next
  case False
  with assms have "mkdirSync_recursive (olderDirOf inputPath) (files w) = Inr f1"
    by (simp add: olderReady_def)
  with False assms(2) show ?thesis
    by (simp add: convertAndArchive_def run say_def)
qed

text \<open>
  C2. Let the input be a regular file, let the probe change no file, and let the run reach
  the conversion: the file is not found compatible, and the archive directory is there in
  the file system \<open>f1\<close>. If the conversion command fails on \<open>f1\<close>, then
  \<^verbatim>\<open>ensureAudioCompatibility\<close> returns \<^verbatim>\<open>null\<close>, and the file system it leaves is the one
  the failed command left: nothing was moved or renamed, the console shows neither move nor
  rename. If the failed command did not touch the input, the input is still there with
  its original content.
\<close>

theorem C2_failed_conversion_moves_nothing:
  assumes probe: "readOnlyProbe E"
    and input: "stat (files w) inputPath = Some (File original)"
    and reached: "extension inputPath = ''wav'' \<longrightarrow>
        exit_ok (shell E (FfmpegCheck inputPath) (files w))
        \<and> \<not> reportsTarget (stdout (shell E (FfmpegCheck inputPath) (files w)))"
    and older: "olderReady inputPath (files w) f1"
    and fails: "\<not> exit_ok (shell E (FfmpegConvert inputPath (convertedPathOf inputPath)) f1)"
    and untouched:
      "stat (fs_after (shell E (FfmpegConvert inputPath (convertedPathOf inputPath)) f1)) inputPath
        = stat f1 inputPath"
  shows "fst (ensureAudioCompatibility E inputPath w) = None
       \<and> files (snd (ensureAudioCompatibility E inputPath w))
           = fs_after (shell E (FfmpegConvert inputPath (convertedPathOf inputPath)) f1)
       \<and> stat (files (snd (ensureAudioCompatibility E inputPath w))) inputPath = Some (File original)
       \<and> console (snd (ensureAudioCompatibility E inputPath w))
           = console w @ [CheckingFormat inputPath, Converting inputPath,
               ErrorProcessingAudioFile inputPath
                 (ChildProcessError
                    (stdout (shell E (FfmpegConvert inputPath (convertedPathOf inputPath)) f1))
                    (stderr (shell E (FfmpegConvert inputPath (convertedPathOf inputPath)) f1)))]"
proof -
  from probe have ro: "\<And>p f. fs_after (shell E (FfmpegCheck p) f) = f"
    by (simp add: readOnlyProbe_def)
  have kept: "stat f1 inputPath = Some (File original)"
    using older input by (rule olderReady_preserves)
  show ?thesis
  proof (cases "extension inputPath = ''wav''")
    case True
    let ?w1 = "(say (CheckingFormat inputPath) w)
                \<lparr>files := fs_after (shell E (FfmpegCheck inputPath) (files w)),
                  execs := execs w @ [FfmpegCheck inputPath]\<rparr>"
    have "olderReady inputPath (files ?w1) f1" using older by (simp add: ro)
    from convertAndArchive_conversion_fails [OF this fails] True reached kept untouched
    show ?thesis by (simp add: ensure_run isCompatible_run)
  next
    case False
    let ?w1 = "say (CheckingFormat inputPath) w"
    have "olderReady inputPath (files ?w1) f1" using older by simp
    from convertAndArchive_conversion_fails [OF this fails] False kept untouched
    show ?thesis by (simp add: ensure_run isCompatible_run)
  qed
qed

theorem C2_failed_conversion_moves_nothing_witness:
  "fst (ensureAudioCompatibility (environment refusing_shell (ResultStream example_events None))
          [''work'', ''audio'', ''b.wav''] example_world) = None
   \<and> stat (files (snd (ensureAudioCompatibility
                         (environment refusing_shell (ResultStream example_events None))
                         [''work'', ''audio'', ''b.wav''] example_world)))
        [''work'', ''audio'', ''b.wav''] = Some (File ''RIFX'')"
proof -
  let ?E = "environment refusing_shell (ResultStream example_events None)"
  let ?i = "[''work'', ''audio'', ''b.wav'']"
  let ?f1 = "([''work'', ''audio'', ''older''], Dir) # example_files"
  have probe: "readOnlyProbe ?E"
    by (simp add: readOnlyProbe_def environment_def result_of_def)
  have input: "stat (files example_world) ?i = Some (File ''RIFX'')"
    by code_simp
  have reached: "extension ?i = ''wav'' \<longrightarrow>
        exit_ok (shell ?E (FfmpegCheck ?i) (files example_world))
        \<and> \<not> reportsTarget (stdout (shell ?E (FfmpegCheck ?i) (files example_world)))"
    by code_simp
  have older: "olderReady ?i (files example_world) ?f1"
    by code_simp
  have fails: "\<not> exit_ok (shell ?E (FfmpegConvert ?i (convertedPathOf ?i)) ?f1)"
    by (simp add: environment_def result_of_def)
  have untouched: "stat (fs_after (shell ?E (FfmpegConvert ?i (convertedPathOf ?i)) ?f1)) ?i
      = stat ?f1 ?i"
    by (simp add: environment_def result_of_def)
  from C2_failed_conversion_moves_nothing [OF probe input reached older fails untouched]
  show ?thesis by blast
qed

text \<open>
  C3, as amended. For a \<^verbatim>\<open>wav\<close> file whose probe command fails,
  \<^verbatim>\<open>ensureAudioCompatibility\<close> returns \<^verbatim>\<open>null\<close> after the probe, the only command it runs
  (no conversion is attempted), and the orchestrator reports that it skips the file and
  goes on: the file is neither converted nor transcribed.
\<close>

theorem C3_probe_failure_skips_file:
  assumes wav: "extension (join audioDir file) = ''wav''"
    and fails: "\<not> exit_ok (shell E (FfmpegCheck (join audioDir file)) (files w))"
  shows "fst (ensureAudioCompatibility E (join audioDir file) w) = None
       \<and> execs (snd (ensureAudioCompatibility E (join audioDir file) w))
           = execs w @ [FfmpegCheck (join audioDir file)]
       \<and> files (snd (ensureAudioCompatibility E (join audioDir file) w))
           = fs_after (shell E (FfmpegCheck (join audioDir file)) (files w))
       \<and> processFile E audioDir referenceDir file w
           = say (SkippingFile file)
               (snd (ensureAudioCompatibility E (join audioDir file) (say (Processing file) w)))"
  using assms
  by (simp add: ensure_run isCompatible_run processFile_def Let_def)

theorem C3_probe_failure_skips_file_witness:
  "fst (ensureAudioCompatibility (environment failing_shell (ResultStream example_events None))
          (join [''work'', ''audio''] ''b.wav'') example_world) = None
   \<and> execs (snd (ensureAudioCompatibility (environment failing_shell (ResultStream example_events None))
          (join [''work'', ''audio''] ''b.wav'') example_world))
       = [FfmpegCheck [''work'', ''audio'', ''b.wav'']]"
proof -
  let ?E = "environment failing_shell (ResultStream example_events None)"
  have wav: "extension (join [''work'', ''audio''] ''b.wav'') = ''wav''"
    by code_simp
  have fails: "\<not> exit_ok (shell ?E (FfmpegCheck (join [''work'', ''audio''] ''b.wav''))
                   (files example_world))"
    by (simp add: environment_def result_of_def)
  have "execs example_world = []" "join [''work'', ''audio''] ''b.wav'' = [''work'', ''audio'', ''b.wav'']"
    by (simp_all add: example_world_def join_def)
  with C3_probe_failure_skips_file [OF wav fails, of "[''work'', ''ref'']"]
  show ?thesis by simp
qed

text \<open>
  The claim as worded fails: with a probe that exits with an error, the file \<^verbatim>\<open>b.wav\<close> is
  not normalised (the probe is the only command run, no directory is created and the file
  stays where it is) and the orchestrator skips it.
\<close>

theorem C3_probe_failure_counterexample:
  "execs (processFile (environment failing_shell (ResultStream example_events None))
            [''work'', ''audio''] [''work'', ''ref''] ''b.wav'' example_world)
     = [FfmpegCheck [''work'', ''audio'', ''b.wav'']]
   \<and> files (processFile (environment failing_shell (ResultStream example_events None))
            [''work'', ''audio''] [''work'', ''ref''] ''b.wav'' example_world)
     = example_files
   \<and> console (processFile (environment failing_shell (ResultStream example_events None))
            [''work'', ''audio''] [''work'', ''ref''] ''b.wav'' example_world)
     = [Processing ''b.wav'', CheckingFormat [''work'', ''audio'', ''b.wav''],
        ErrorProcessingAudioFile [''work'', ''audio'', ''b.wav''] (ChildProcessError [] []),
        SkippingFile ''b.wav'']"
  by code_simp

lemma ret_parts [simp]: "fst (ret x w) = Inr x" "snd (ret x w) = w"
  by (simp_all add: ret_def)

lemma convertAndArchive_console:
  "\<exists>ls. console (snd (convertAndArchive E i dir b conv older w)) = console w @ ls
     \<and> (case fst (convertAndArchive E i dir b conv older w) of
           Inl e \<Rightarrow> ls = [] \<or> hd ls = Converting i
         | Inr p \<Rightarrow> ls \<noteq> [] \<and> hd ls = Converting i)"
  by (simp add: convertAndArchive_def run split: sum.splits)

lemma convertAndArchive_execs:
  "execs (snd (convertAndArchive E i dir b conv older w)) = execs w
   \<or> execs (snd (convertAndArchive E i dir b conv older w)) = execs w @ [FfmpegConvert i conv]"
  by (simp add: convertAndArchive_def run split: sum.splits)

lemma not_compatible_console:
  assumes "\<not> (extension inputPath = ''wav''
        \<and> exit_ok (shell E (FfmpegCheck inputPath) (files w))
        \<and> reportsTarget (stdout (shell E (FfmpegCheck inputPath) (files w))))"
  shows "\<exists>l ls. console (snd (ensureAudioCompatibility E inputPath w))
            = console w @ CheckingFormat inputPath # l # ls \<and> l \<noteq> AlreadyCompatible inputPath"
proof -
  let ?run = "\<lambda>w1. convertAndArchive E inputPath (dirname inputPath) (baseNameOf inputPath)
                  (convertedPathOf inputPath) (olderDirOf inputPath) w1"
  have conv: "\<exists>l ls. console (snd (case ?run w1 of
             (Inl e, w2) \<Rightarrow> (None, say (ErrorProcessingAudioFile inputPath e) w2)
           | (Inr p, w2) \<Rightarrow> (Some p, w2)))
            = console w1 @ l # ls \<and> l \<noteq> AlreadyCompatible inputPath" for w1
  proof -
    obtain ls where ls: "console (snd (?run w1)) = console w1 @ ls"
      and shape: "(case fst (?run w1) of
           Inl e \<Rightarrow> ls = [] \<or> hd ls = Converting inputPath
         | Inr p \<Rightarrow> ls \<noteq> [] \<and> hd ls = Converting inputPath)"
      using convertAndArchive_console by blast
    show ?thesis
    proof (cases "?run w1")
      case (Pair r w2)
      show ?thesis
      proof (cases r)
        case (Inl e)
        with Pair ls shape show ?thesis
          by (cases ls) auto
      next
        case (Inr p)
        with Pair ls shape show ?thesis
          by (cases ls) auto
      qed
    qed
  qed
  show ?thesis
  proof (cases "extension inputPath = ''wav''")
    case True
    show ?thesis
    proof (cases "exit_ok (shell E (FfmpegCheck inputPath) (files w))")
      case ok: True
      with True assms
      have "\<not> reportsTarget (stdout (shell E (FfmpegCheck inputPath) (files w)))" by simp
      with True ok conv [of "(say (CheckingFormat inputPath) w)
                \<lparr>files := fs_after (shell E (FfmpegCheck inputPath) (files w)),
                  execs := execs w @ [FfmpegCheck inputPath]\<rparr>"]
      show ?thesis by (simp add: ensure_run isCompatible_run)
    next
      case False
      with True show ?thesis by (simp add: ensure_run isCompatible_run)
    qed
  next
    case False
    with conv [of "say (CheckingFormat inputPath) w"]
    show ?thesis by (simp add: ensure_run isCompatible_run)
  qed
qed

lemma other_container_not_probed:
  assumes "extension inputPath \<noteq> ''wav''"
  shows "execs (snd (ensureAudioCompatibility E inputPath w)) = execs w
       \<or> execs (snd (ensureAudioCompatibility E inputPath w))
           = execs w @ [FfmpegConvert inputPath (convertedPathOf inputPath)]"
  using assms
    convertAndArchive_execs [of E inputPath "dirname inputPath" "baseNameOf inputPath"
      "convertedPathOf inputPath" "olderDirOf inputPath" "say (CheckingFormat inputPath) w"]
  by (auto simp: ensure_run isCompatible_run split: prod.splits sum.splits)

text \<open>
  C4. The run that finds the file compatible prints \<^verbatim>\<open>Checking audio file format\<close> and
  \<^verbatim>\<open>Audio file is already compatible\<close> and nothing else. It is taken if and only if the
  extension is \<^verbatim>\<open>wav\<close>, the probe command succeeds and its output contains
  \<^verbatim>\<open>pcm_s16le\<close>, \<^verbatim>\<open>16000 Hz\<close> and \<^verbatim>\<open>mono\<close>; it returns the input path after the
  probe alone. A file with another extension is never found compatible, and no probe
  command is run for it.
\<close>

theorem C4_compatible_iff_wav_and_markers:
  "(console (snd (ensureAudioCompatibility E inputPath w))
      = console w @ [CheckingFormat inputPath, AlreadyCompatible inputPath]
    \<longleftrightarrow>
      extension inputPath = ''wav''
      \<and> exit_ok (shell E (FfmpegCheck inputPath) (files w))
      \<and> str_includes (stdout (shell E (FfmpegCheck inputPath) (files w))) ''pcm_s16le''
      \<and> str_includes (stdout (shell E (FfmpegCheck inputPath) (files w))) ''16000 Hz''
      \<and> str_includes (stdout (shell E (FfmpegCheck inputPath) (files w))) ''mono'')
   \<and> (console (snd (ensureAudioCompatibility E inputPath w))
        = console w @ [CheckingFormat inputPath, AlreadyCompatible inputPath]
      \<longrightarrow> fst (ensureAudioCompatibility E inputPath w) = Some inputPath
          \<and> execs (snd (ensureAudioCompatibility E inputPath w)) = execs w @ [FfmpegCheck inputPath])
   \<and> (extension inputPath \<noteq> ''wav''
      \<longrightarrow> console (snd (ensureAudioCompatibility E inputPath w))
            \<noteq> console w @ [CheckingFormat inputPath, AlreadyCompatible inputPath]
          \<and> (\<forall>q. FfmpegCheck q \<notin> set (drop (length (execs w))
                     (execs (snd (ensureAudioCompatibility E inputPath w))))))"
proof -
  let ?cond = "extension inputPath = ''wav''
      \<and> exit_ok (shell E (FfmpegCheck inputPath) (files w))
      \<and> reportsTarget (stdout (shell E (FfmpegCheck inputPath) (files w)))"
  let ?said = "console (snd (ensureAudioCompatibility E inputPath w))
      = console w @ [CheckingFormat inputPath, AlreadyCompatible inputPath]"
  have yes: "?said \<and> fst (ensureAudioCompatibility E inputPath w) = Some inputPath
      \<and> execs (snd (ensureAudioCompatibility E inputPath w)) = execs w @ [FfmpegCheck inputPath]"
    if ?cond
    using that by (simp add: ensure_run isCompatible_run)
  have no: "\<not> ?said" if "\<not> ?cond"
    using not_compatible_console [OF that] by auto
  have unprobed: "\<forall>q. FfmpegCheck q \<notin> set (drop (length (execs w))
                     (execs (snd (ensureAudioCompatibility E inputPath w))))"
    if "extension inputPath \<noteq> ''wav''"
    using other_container_not_probed [OF that, of E w] by auto
  from yes no unprobed show ?thesis
    unfolding reportsTarget_def by blast
qed

theorem C4_compatible_iff_wav_and_markers_witness:
  "fst (ensureAudioCompatibility (environment conforming_shell (ResultStream example_events None))
          [''work'', ''audio'', ''b.wav''] example_world) = Some [''work'', ''audio'', ''b.wav'']
   \<and> console (snd (ensureAudioCompatibility (environment conforming_shell (ResultStream example_events None))
          [''work'', ''audio'', ''b.wav''] example_world))
       = [CheckingFormat [''work'', ''audio'', ''b.wav''], AlreadyCompatible [''work'', ''audio'', ''b.wav'']]
   \<and> execs (snd (ensureAudioCompatibility (environment converting_shell (ResultStream example_events None))
          [''work'', ''audio'', ''a.mp3''] example_world))
       = [FfmpegConvert [''work'', ''audio'', ''a.mp3''] [''work'', ''audio'', ''a.wav'']]"
proof -
  let ?E = "environment conforming_shell (ResultStream example_events None)"
  let ?i = "[''work'', ''audio'', ''b.wav'']"
  have cond: "extension ?i = ''wav''
      \<and> exit_ok (shell ?E (FfmpegCheck ?i) (files example_world))
      \<and> str_includes (stdout (shell ?E (FfmpegCheck ?i) (files example_world))) ''pcm_s16le''
      \<and> str_includes (stdout (shell ?E (FfmpegCheck ?i) (files example_world))) ''16000 Hz''
      \<and> str_includes (stdout (shell ?E (FfmpegCheck ?i) (files example_world))) ''mono''"
    by code_simp
  have start: "console example_world = []" "execs example_world = []"
    by (simp_all add: example_world_def)
  have other: "execs (snd (ensureAudioCompatibility (environment converting_shell (ResultStream example_events None))
          [''work'', ''audio'', ''a.mp3''] example_world))
       = [FfmpegConvert [''work'', ''audio'', ''a.mp3''] [''work'', ''audio'', ''a.wav'']]"
    by code_simp
  from C4_compatible_iff_wav_and_markers [of ?E ?i example_world] cond start other
  show ?thesis by simp
qed

section \<open>Properties of the batch orchestrator and the command line\<close>

lemma processed_append [simp]: "processed (xs @ ys) = processed xs @ processed ys"
  by (induction xs rule: processed.induct) simp_all

lemma convertAndArchive_processed:
  "processed (console (snd (convertAndArchive E i dir b conv older w))) = processed (console w)"
  by (simp add: convertAndArchive_def run split: sum.splits)

lemma caught_processed:
  "processed (console (snd (case r of
       (Inl e, w2) \<Rightarrow> (None, say (ErrorProcessingAudioFile i e) w2)
     | (Inr p, w2) \<Rightarrow> (Some p, w2)))) = processed (console (snd r))"
  by (cases r; cases "fst r") auto

lemma ensure_processed:
  "processed (console (snd (ensureAudioCompatibility E i w))) = processed (console w)"
proof (cases "extension i = ''wav''")
  case True
  show ?thesis
  proof (cases "exit_ok (shell E (FfmpegCheck i) (files w))")
    case ok: True
    show ?thesis
    proof (cases "reportsTarget (stdout (shell E (FfmpegCheck i) (files w)))")
      case True
      with \<open>extension i = ''wav''\<close> ok show ?thesis
        by (simp add: ensure_run isCompatible_run)
    next
      case False
      with \<open>extension i = ''wav''\<close> ok show ?thesis
        by (simp add: ensure_run isCompatible_run caught_processed convertAndArchive_processed)
    qed
  next
    case False
    with True show ?thesis by (simp add: ensure_run isCompatible_run)
  qed
next
  case False
  then show ?thesis
    by (simp add: ensure_run isCompatible_run caught_processed convertAndArchive_processed)
qed

lemma transcribeAudio_processed:
  "processed (console (snd (transcribeAudio E p w))) = processed (console w)"
  by (simp add: transcribeAudio_def split: response.splits sum.splits option.splits)

lemma calculateMetrics_processed:
  "processed (console (snd (calculateMetrics E r h w))) = processed (console w)"
  by (simp add: calculateMetrics_def Let_def)

lemma processFile_processed:
  "processed (console (processFile E audioDir referenceDir file w)) = processed (console w) @ [file]"
proof -
  obtain r w1 where e: "ensureAudioCompatibility E (join audioDir file) (say (Processing file) w) = (r, w1)"
    by (cases "ensureAudioCompatibility E (join audioDir file) (say (Processing file) w)")
  with ensure_processed [of E "join audioDir file" "say (Processing file) w"]
  have c1: "processed (console w1) = processed (console w) @ [file]" by simp
  show ?thesis
  proof (cases r)
    case None
    with e c1 show ?thesis by (simp add: processFile_def Let_def)
  next
    case (Some audioPath)
    obtain t w2 where t: "transcribeAudio E audioPath w1 = (t, w2)"
      by (cases "transcribeAudio E audioPath w1")
    with transcribeAudio_processed [of E audioPath w1] c1
    have c2: "processed (console w2) = processed (console w) @ [file]" by simp
    show ?thesis
    proof (cases "truthy t")
      case None
      with e Some t c2 show ?thesis by (simp add: processFile_def Let_def)
    next
      case (Some body)
      note body = this
      show ?thesis
      proof (cases "writeFileSync (outputPathOf E file) body (files w2)")
        case (Inl err)
        with e \<open>r = Some audioPath\<close> t body c2 show ?thesis
          by (simp add: processFile_def Let_def fsStep_def)
      next
        case (Inr f3)
        let ?w4 = "say (TranscriptionCompleted (outputPathOf E file)) (w2\<lparr>files := f3\<rparr>)"
        obtain ev w5 where m: "calculateMetrics E (referencePathOf referenceDir file)
              (outputPathOf E file) ?w4 = (ev, w5)"
          by (cases "calculateMetrics E (referencePathOf referenceDir file) (outputPathOf E file) ?w4")
        with calculateMetrics_processed [of E "referencePathOf referenceDir file" "outputPathOf E file" ?w4] c2
        have c5: "processed (console w5) = processed (console w) @ [file]" by simp
        from e \<open>r = Some audioPath\<close> t body Inr m c2 c5 show ?thesis
          by (simp add: processFile_def Let_def fsStep_def split: option.splits)
      qed
    qed
  qed
qed

lemma processLoop_processed:
  "processed (console (processLoop E audioDir referenceDir fs w)) = processed (console w) @ fs"
  by (induction fs arbitrary: w) (simp_all add: processFile_processed)

lemma stat_update: "p \<noteq> [] \<Longrightarrow> stat (AList.update p n f) q = (if q = p then Some n else stat f q)"
  by (simp add: stat_def update_conv')

lemma writeFileSync_ok:
  assumes "p \<noteq> []" and "stat f (dirname p) = Some Dir" and "stat f p \<noteq> Some Dir"
  shows "writeFileSync p content f = Inr (AList.update p (File content) f)"
  using assms by (simp add: writeFileSync_def split: option.splits node.splits)

lemma outputPath_parts [simp]:
  "outputPathOf E file \<noteq> []" "dirname (outputPathOf E file) = join (cwd E) OUTPUT_DIR"
  by (simp_all add: outputPathOf_def join_def dirname_def butlast_append)

lemma truthy_Some [simp]: "body \<noteq> [] \<Longrightarrow> truthy (Some body) = Some body"
  by (simp add: truthy_def)

text \<open>
  C9, as amended. Let the audio file be ready at \<open>audioPath\<close>, let the transcription
  return a non-empty transcript, let \<^verbatim>\<open>output\<close> be a directory in which
  \<^verbatim>\<open><baseName>.txt\<close> is not a directory, and let the reference file be missing and not be
  the output file itself. Then the orchestrator writes the transcript to
  \<^verbatim>\<open>output/<baseName>.txt\<close>, logs the completion and the warning, runs no metrics command
  and writes nothing to the results stream, and the loop goes on with the next file.
\<close>

theorem C9_missing_reference_keeps_transcript:
  assumes prepared: "ensureAudioCompatibility E (join audioDir file) (say (Processing file) w)
        = (Some audioPath, w1)"
    and transcribed: "transcribeAudio E audioPath w1 = (Some body, w2)"
    and nonempty: "body \<noteq> []"
    and outdir: "stat (files w2) (join (cwd E) OUTPUT_DIR) = Some Dir"
    and notdir: "stat (files w2) (outputPathOf E file) \<noteq> Some Dir"
    and missing: "\<not> existsSync (files w2) (referencePathOf referenceDir file)"
    and apart: "referencePathOf referenceDir file \<noteq> outputPathOf E file"
  shows "processFile E audioDir referenceDir file w
           = say (ReferenceNotFound (referencePathOf referenceDir file))
               (say (TranscriptionCompleted (outputPathOf E file))
                  (w2\<lparr>files := AList.update (outputPathOf E file) (File body) (files w2)\<rparr>))
       \<and> stat (files (processFile E audioDir referenceDir file w)) (outputPathOf E file)
           = Some (File body)
       \<and> execs (processFile E audioDir referenceDir file w) = execs w2
       \<and> written (processFile E audioDir referenceDir file w) = written w2
       \<and> processLoop E audioDir referenceDir (file # rest) w
           = processLoop E audioDir referenceDir rest
               (say (ReferenceNotFound (referencePathOf referenceDir file))
                  (say (TranscriptionCompleted (outputPathOf E file))
                     (w2\<lparr>files := AList.update (outputPathOf E file) (File body) (files w2)\<rparr>)))"
proof -
  have written_out: "writeFileSync (outputPathOf E file) body (files w2)
      = Inr (AList.update (outputPathOf E file) (File body) (files w2))"
    using outdir notdir by (simp add: writeFileSync_ok)
  have still_missing: "\<not> existsSync (AList.update (outputPathOf E file) (File body) (files w2))
      (referencePathOf referenceDir file)"
    using missing apart by (simp add: existsSync_def stat_update)
  have step: "processFile E audioDir referenceDir file w
           = say (ReferenceNotFound (referencePathOf referenceDir file))
               (say (TranscriptionCompleted (outputPathOf E file))
                  (w2\<lparr>files := AList.update (outputPathOf E file) (File body) (files w2)\<rparr>))"
    using prepared transcribed nonempty written_out still_missing
    by (simp add: processFile_def Let_def fsStep_def)
  show ?thesis
    unfolding processLoop.simps step by (simp add: stat_update)
qed

theorem C9_missing_reference_keeps_transcript_witness:
  "stat (files (processFile (environment conforming_shell (ResultStream example_events None))
                  [''work'', ''audio''] [''work'', ''ref''] ''b.wav'' example_world))
        [''work'', ''output'', ''b.txt''] = Some (File ''hello world'')
   \<and> execs (processFile (environment conforming_shell (ResultStream example_events None))
                  [''work'', ''audio''] [''work'', ''ref''] ''b.wav'' example_world)
       = [FfmpegCheck [''work'', ''audio'', ''b.wav'']]"
proof -
  let ?E = "environment conforming_shell (ResultStream example_events None)"
  let ?i = "join [''work'', ''audio''] ''b.wav''"
  let ?w1 = "snd (ensureAudioCompatibility ?E ?i (say (Processing ''b.wav'') example_world))"
  have "fst (ensureAudioCompatibility ?E ?i (say (Processing ''b.wav'') example_world))
      = Some [''work'', ''audio'', ''b.wav'']"
    by code_simp
  then have prepared: "ensureAudioCompatibility ?E ?i (say (Processing ''b.wav'') example_world)
      = (Some [''work'', ''audio'', ''b.wav''], ?w1)"
    by (simp add: prod_eq_iff)
  have transcribed: "transcribeAudio ?E [''work'', ''audio'', ''b.wav''] ?w1 = (Some ''hello world'', ?w1)"
    by code_simp
  have nonempty: "''hello world'' \<noteq> []" by simp
  have outdir: "stat (files ?w1) (join (cwd ?E) OUTPUT_DIR) = Some Dir"
    by code_simp
  have notdir: "stat (files ?w1) (outputPathOf ?E ''b.wav'') \<noteq> Some Dir"
    by code_simp
  have missing: "\<not> existsSync (files ?w1) (referencePathOf [''work'', ''ref''] ''b.wav'')"
    by code_simp
  have apart: "referencePathOf [''work'', ''ref''] ''b.wav'' \<noteq> outputPathOf ?E ''b.wav''"
    by code_simp
  have out: "outputPathOf ?E ''b.wav'' = [''work'', ''output'', ''b.txt'']"
    by code_simp
  have ex: "execs ?w1 = [FfmpegCheck [''work'', ''audio'', ''b.wav'']]"
    by code_simp
  from C9_missing_reference_keeps_transcript
    [OF prepared transcribed nonempty outdir notdir missing apart]
  have "stat (files (processFile ?E [''work'', ''audio''] [''work'', ''ref''] ''b.wav'' example_world))
          (outputPathOf ?E ''b.wav'') = Some (File ''hello world'')"
    and "execs (processFile ?E [''work'', ''audio''] [''work'', ''ref''] ''b.wav'' example_world)
          = execs ?w1"
    by blast+
  with out ex show ?thesis by simp
qed

text \<open>
  The claim as worded fails when the reference directory is the output directory: the
  reference file \<^verbatim>\<open>output/b.txt\<close> does not exist before the file is processed, the
  transcript written there is then found as the reference, no warning is logged and the
  metrics command runs.
\<close>

theorem C9_reference_in_output_counterexample:
  "\<not> existsSync (files example_world) (referencePathOf [''work'', ''output''] ''b.wav'')
   \<and> execs (processFile (environment conforming_shell (ResultStream example_events None))
              [''work'', ''audio''] [''work'', ''output''] ''b.wav'' example_world)
       = [FfmpegCheck [''work'', ''audio'', ''b.wav''],
          AsrEval [''work'', ''output'', ''b.txt''] [''work'', ''output'', ''b.txt'']]
   \<and> ReferenceNotFound [''work'', ''output'', ''b.txt'']
       \<notin> set (console (processFile (environment conforming_shell (ResultStream example_events None))
              [''work'', ''audio''] [''work'', ''output''] ''b.wav'' example_world))"
  by code_simp

lemma execSync_ignores_service: "execSync (E\<lparr>service := s\<rparr>) c = execSync E c"
  by (rule ext) (simp add: execSync_def)

lemma isCompatible_ignores_service:
  "isCompatible (E\<lparr>service := s\<rparr>) i ext = isCompatible E i ext"
  by (simp add: isCompatible_def execSync_ignores_service)

lemma convertAndArchive_ignores_service:
  "convertAndArchive (E\<lparr>service := s\<rparr>) i dir b conv older = convertAndArchive E i dir b conv older"
  by (simp add: convertAndArchive_def execSync_ignores_service)

lemma ensure_ignores_service:
  "ensureAudioCompatibility (E\<lparr>service := s\<rparr>) i w = ensureAudioCompatibility E i w"
  unfolding ensureAudioCompatibility_def ensureAudioCompatibility_try_def
    isCompatible_ignores_service convertAndArchive_ignores_service
  by (rule refl)

text \<open>
  C10. Let the audio file be ready at \<open>audioPath\<close>, and let the result stream end without
  an error with final results whose texts, put together, are empty once trimmed (no final
  result at all, or final results with empty texts). Then \<^verbatim>\<open>transcribeAudio\<close> returns the
  empty string, and the orchestrator only adds \<^verbatim>\<open>Failed to transcribe\<close> to the console: no
  file is written and no metrics command is run. A transcription that fails is handled
  the same way, after the error message of the driver.
\<close>

theorem C10_empty_transcript_treated_as_failure:
  assumes prepared: "ensureAudioCompatibility E (join audioDir file) (say (Processing file) w)
        = (Some audioPath, w1)"
    and stream: "service E (audioStreamGenerator (files w1) audioPath) = ResultStream events None"
    and alternatives: "\<forall>r \<in> set (finalResults events). Alternatives r \<noteq> []"
    and silent: "trim (finalText events) = []"
  shows "transcribeAudio E audioPath w1 = (Some [], w1)
       \<and> processFile E audioDir referenceDir file w = say (FailedToTranscribe file) w1
       \<and> processFile (E\<lparr>service := constant_service (SendFailed e)\<rparr>) audioDir referenceDir file w
           = say (FailedToTranscribe file) (say (ErrorDuringTranscription e) w1)"
proof -
  have t: "transcribeAudio E audioPath w1 = (Some [], w1)"
    using transcribeAudio_completed [OF stream alternatives] silent by simp
  have a: "processFile E audioDir referenceDir file w = say (FailedToTranscribe file) w1"
    using prepared t by (simp add: processFile_def Let_def truthy_def)
  have b: "processFile (E\<lparr>service := constant_service (SendFailed e)\<rparr>) audioDir referenceDir file w
           = say (FailedToTranscribe file) (say (ErrorDuringTranscription e) w1)"
    using prepared
    by (simp add: processFile_def Let_def truthy_def ensure_ignores_service transcribeAudio_def)
  from t a b show ?thesis by simp
qed

theorem C10_empty_transcript_treated_as_failure_witness:
  "files (processFile (environment conforming_shell (ResultStream partial_events None))
            [''work'', ''audio''] [''work'', ''ref''] ''b.wav'' example_world) = example_files
   \<and> execs (processFile (environment conforming_shell (ResultStream partial_events None))
            [''work'', ''audio''] [''work'', ''ref''] ''b.wav'' example_world)
       = [FfmpegCheck [''work'', ''audio'', ''b.wav'']]
   \<and> console (processFile (environment conforming_shell (ResultStream partial_events None))
            [''work'', ''audio''] [''work'', ''ref''] ''b.wav'' example_world)
       = [Processing ''b.wav'', CheckingFormat [''work'', ''audio'', ''b.wav''],
          AlreadyCompatible [''work'', ''audio'', ''b.wav''], FailedToTranscribe ''b.wav'']"
proof -
  let ?E = "environment conforming_shell (ResultStream partial_events None)"
  let ?i = "join [''work'', ''audio''] ''b.wav''"
  let ?w1 = "snd (ensureAudioCompatibility ?E ?i (say (Processing ''b.wav'') example_world))"
  have "fst (ensureAudioCompatibility ?E ?i (say (Processing ''b.wav'') example_world))
      = Some [''work'', ''audio'', ''b.wav'']"
    by code_simp
  then have prepared: "ensureAudioCompatibility ?E ?i (say (Processing ''b.wav'') example_world)
      = (Some [''work'', ''audio'', ''b.wav''], ?w1)"
    by (simp add: prod_eq_iff)
  have stream: "service ?E (audioStreamGenerator (files ?w1) [''work'', ''audio'', ''b.wav''])
      = ResultStream partial_events None"
    by (simp add: environment_def)
  have alternatives: "\<forall>r \<in> set (finalResults partial_events). Alternatives r \<noteq> []"
    by (simp add: finalResults_def partial_events_def)
  have silent: "trim (finalText partial_events) = []"
    by code_simp
  have w1: "files ?w1 = example_files" "execs ?w1 = [FfmpegCheck [''work'', ''audio'', ''b.wav'']]"
    "console ?w1 = [Processing ''b.wav'', CheckingFormat [''work'', ''audio'', ''b.wav''],
          AlreadyCompatible [''work'', ''audio'', ''b.wav'']]"
    by code_simp+
  from C10_empty_transcript_treated_as_failure
    [OF prepared stream alternatives silent, where referenceDir = "[''work'', ''ref'']"]
  have "processFile ?E [''work'', ''audio''] [''work'', ''ref''] ''b.wav'' example_world
      = say (FailedToTranscribe ''b.wav'') ?w1"
    by blast
  with w1 show ?thesis by simp
qed

lemma readdirSync_exists: "readdirSync d f = Inr entries \<Longrightarrow> existsSync f d"
  by (auto simp: readdirSync_def existsSync_def split: option.splits node.splits)

lemma exitCode_simps [simp]:
  "exitCode Returned = 0" "exitCode (Exited n) = n" "exitCode (Rejected e) = 1"
  "exitCode (Threw e) = 1"
  by (simp_all add: exitCode_def)

lemma ensureOutputDir_loaded:
  assumes "stat (files w) (cwd E) = Some Dir"
  shows "ensureOutputDir E w = (Inr (), loaded E w)"
    and "console (loaded E w) = console w"
  using assms
  by (auto simp: loaded_def ensureOutputDir_def fsStep_def mkdirSync_def ret_def join_def
        dirname_def existsSync_def split: option.splits)

lemma processLoop_foldl:
  "processLoop E audioDir referenceDir fs w
     = foldl (\<lambda>v file. processFile E audioDir referenceDir file v) w fs"
  by (induction fs arbitrary: w) simp_all

text \<open>
  C8, as amended. Let the working directory be a directory, so that the script is loaded
  (it makes \<^verbatim>\<open>output\<close> when nothing of that name is there). The script prints the usage
  message and exits with code 1 when one of the two arguments is missing or empty, and
  exits with code 1 when one of the two resolved paths does not exist then. When both
  exist, the audio path is a directory (its listing succeeds) and \<^verbatim>\<open>results.txt\<close> can be
  opened for appending, \<^verbatim>\<open>main\<close> runs to its end, so that the process exits with code 0:
  what is left is what the body of the loop makes of the supported entries of the
  listing, one after the other in the order of the listing, each announced once on the
  console. This holds for every behaviour of the tools and of the service. Within a file,
  a failed conversion, a failed or empty transcription, a transcript that cannot be
  written and a metrics tool without output are each logged, as the last line for that
  file, and the loop goes on with the next file.
\<close>

theorem C8_exit_codes:
  assumes wd: "stat (files w) (cwd E) = Some Dir"
  shows
  "(truthy (argument argv 2) = None \<or> truthy (argument argv 3) = None
      \<longrightarrow> script E argv w = (Exited 1, say Usage (loaded E w))
          \<and> exitCode (fst (script E argv w)) = 1)
   \<and> (truthy (argument argv 2) = Some a \<and> truthy (argument argv 3) = Some r
        \<and> (\<not> existsSync (files (loaded E w)) (resolve (cwd E) a)
            \<or> \<not> existsSync (files (loaded E w)) (resolve (cwd E) r))
      \<longrightarrow> script E argv w = (Exited 1, say DirectoriesDoNotExist (loaded E w))
          \<and> exitCode (fst (script E argv w)) = 1)
   \<and> (truthy (argument argv 2) = Some a \<and> truthy (argument argv 3) = Some r
        \<and> existsSync (files (loaded E w)) (resolve (cwd E) r)
        \<and> readdirSync (resolve (cwd E) a) (files (loaded E w)) = Inr entries
        \<and> openAppend (join (cwd E) RESULTS_FILE) (files (loaded E w)) = Inr f1
      \<longrightarrow> script E argv w
            = (Returned,
               foldl (\<lambda>v file. processFile E (resolve (cwd E) a) (resolve (cwd E) r) file v)
                 ((say (UsingReferenceDirectory (resolve (cwd E) r))
                     (say (UsingAudioDirectory (resolve (cwd E) a)) (loaded E w)))
                  \<lparr>files := f1\<rparr>)
                 (filter supported entries))
          \<and> exitCode (fst (script E argv w)) = 0
          \<and> processed (console (snd (script E argv w)))
              = processed (console w) @ filter supported entries)
   \<and> processLoop E audioDir referenceDir (file # rest) v
       = processLoop E audioDir referenceDir rest (processFile E audioDir referenceDir file v)
   \<and> (ensureAudioCompatibility E (join audioDir file) (say (Processing file) v) = (None, v1)
      \<longrightarrow> processFile E audioDir referenceDir file v = say (SkippingFile file) v1)
   \<and> (ensureAudioCompatibility E (join audioDir file) (say (Processing file) v)
          = (Some audioPath, v1)
        \<and> transcribeAudio E audioPath v1 = (transcript, v2)
        \<and> truthy transcript = None
      \<longrightarrow> processFile E audioDir referenceDir file v = say (FailedToTranscribe file) v2)
   \<and> (ensureAudioCompatibility E (join audioDir file) (say (Processing file) v)
          = (Some audioPath, v1)
        \<and> transcribeAudio E audioPath v1 = (transcript, v2)
        \<and> truthy transcript = Some body
        \<and> writeFileSync (outputPathOf E file) body (files v2) = Inl e
      \<longrightarrow> processFile E audioDir referenceDir file v
            = say (ErrorProcessing file (SystemError e)) v2)
   \<and> (ensureAudioCompatibility E (join audioDir file) (say (Processing file) v)
          = (Some audioPath, v1)
        \<and> transcribeAudio E audioPath v1 = (transcript, v2)
        \<and> truthy transcript = Some body
        \<and> writeFileSync (outputPathOf E file) body (files v2) = Inr f3
        \<and> existsSync f3 (referencePathOf referenceDir file)
        \<and> calculateMetrics E (referencePathOf referenceDir file) (outputPathOf E file)
              (say (TranscriptionCompleted (outputPathOf E file)) (v2\<lparr>files := f3\<rparr>))
            = (evaluationOutput, v5)
        \<and> truthy evaluationOutput = None
      \<longrightarrow> processFile E audioDir referenceDir file v
            = say (FailedToCalculateMetrics file) v5)"
proof -
  note load = ensureOutputDir_loaded [OF wd]
  have start: "script E argv w = main E argv (loaded E w)"
    by (simp add: script_def load(1))
  have usage: "script E argv w = (Exited 1, say Usage (loaded E w))"
    if "truthy (argument argv 2) = None \<or> truthy (argument argv 3) = None"
    using that unfolding start by (auto simp: main_def split: option.splits)
  have missing: "script E argv w = (Exited 1, say DirectoriesDoNotExist (loaded E w))"
    if "truthy (argument argv 2) = Some a \<and> truthy (argument argv 3) = Some r
        \<and> (\<not> existsSync (files (loaded E w)) (resolve (cwd E) a)
            \<or> \<not> existsSync (files (loaded E w)) (resolve (cwd E) r))"
    using that unfolding start by (auto simp: main_def Let_def)
  have runs: "script E argv w
            = (Returned,
               processLoop E (resolve (cwd E) a) (resolve (cwd E) r) (filter supported entries)
                 ((say (UsingReferenceDirectory (resolve (cwd E) r))
                     (say (UsingAudioDirectory (resolve (cwd E) a)) (loaded E w)))
                  \<lparr>files := f1\<rparr>))"
    if h: "truthy (argument argv 2) = Some a \<and> truthy (argument argv 3) = Some r
        \<and> existsSync (files (loaded E w)) (resolve (cwd E) r)
        \<and> readdirSync (resolve (cwd E) a) (files (loaded E w)) = Inr entries
        \<and> openAppend (join (cwd E) RESULTS_FILE) (files (loaded E w)) = Inr f1"
  proof -
    from h have "existsSync (files (loaded E w)) (resolve (cwd E) a)"
      by (auto dest: readdirSync_exists)
    with h show ?thesis
      unfolding start by (simp add: main_def Let_def processFiles_def)
  qed
  have listed: "processed (console (snd (script E argv w)))
              = processed (console w) @ filter supported entries"
    if "truthy (argument argv 2) = Some a \<and> truthy (argument argv 3) = Some r
        \<and> existsSync (files (loaded E w)) (resolve (cwd E) r)
        \<and> readdirSync (resolve (cwd E) a) (files (loaded E w)) = Inr entries
        \<and> openAppend (join (cwd E) RESULTS_FILE) (files (loaded E w)) = Inr f1"
    by (simp add: runs [OF that] processLoop_processed load(2))
  have skipped: "processFile E audioDir referenceDir file v = say (SkippingFile file) v1"
    if "ensureAudioCompatibility E (join audioDir file) (say (Processing file) v) = (None, v1)"
    using that by (simp add: processFile_def Let_def)
  have untranscribed: "processFile E audioDir referenceDir file v = say (FailedToTranscribe file) v2"
    if "ensureAudioCompatibility E (join audioDir file) (say (Processing file) v)
          = (Some audioPath, v1)
        \<and> transcribeAudio E audioPath v1 = (transcript, v2)
        \<and> truthy transcript = None"
    using that by (simp add: processFile_def Let_def)
  have unwritten: "processFile E audioDir referenceDir file v
            = say (ErrorProcessing file (SystemError e)) v2"
    if "ensureAudioCompatibility E (join audioDir file) (say (Processing file) v)
          = (Some audioPath, v1)
        \<and> transcribeAudio E audioPath v1 = (transcript, v2)
        \<and> truthy transcript = Some body
        \<and> writeFileSync (outputPathOf E file) body (files v2) = Inl e"
    using that by (simp add: processFile_def Let_def fsStep_def)
  have unmeasured: "processFile E audioDir referenceDir file v
            = say (FailedToCalculateMetrics file) v5"
    if "ensureAudioCompatibility E (join audioDir file) (say (Processing file) v)
          = (Some audioPath, v1)
        \<and> transcribeAudio E audioPath v1 = (transcript, v2)
        \<and> truthy transcript = Some body
        \<and> writeFileSync (outputPathOf E file) body (files v2) = Inr f3
        \<and> existsSync f3 (referencePathOf referenceDir file)
        \<and> calculateMetrics E (referencePathOf referenceDir file) (outputPathOf E file)
              (say (TranscriptionCompleted (outputPathOf E file)) (v2\<lparr>files := f3\<rparr>))
            = (evaluationOutput, v5)
        \<and> truthy evaluationOutput = None"
    using that by (simp add: processFile_def Let_def fsStep_def)
  show ?thesis
    using usage missing runs listed skipped untranscribed unwritten unmeasured
    by (simp add: processLoop_foldl)
qed

theorem C8_exit_codes_witness:
  "fst (script (environment converting_shell (ResultStream example_events None))
          [''node'', ''evaluate.js'', ''audio''] example_world) = Exited 1
   \<and> last (console (snd (script (environment converting_shell (ResultStream example_events None))
          [''node'', ''evaluate.js'', ''audio''] example_world))) = Usage
   \<and> fst (script (environment converting_shell (ResultStream example_events None))
          [''node'', ''evaluate.js'', ''audio'', ''missing''] example_world) = Exited 1
   \<and> last (console (snd (script (environment converting_shell (ResultStream example_events None))
          [''node'', ''evaluate.js'', ''audio'', ''missing''] example_world))) = DirectoriesDoNotExist
   \<and> exitCode (fst (script (environment converting_shell (ResultStream example_events None))
          [''node'', ''evaluate.js'', ''audio'', ''ref''] example_world)) = 0
   \<and> processed (console (snd (script (environment converting_shell (ResultStream example_events None))
          [''node'', ''evaluate.js'', ''audio'', ''ref''] example_world))) = [''a.mp3'', ''b.wav'']
   \<and> last (console (processFile (environment failing_shell (ResultStream example_events None))
          [''work'', ''audio''] [''work'', ''ref''] ''a.mp3'' example_world)) = SkippingFile ''a.mp3''
   \<and> last (console (processFile (environment conforming_shell (SendFailed (ServiceError ''down'')))
          [''work'', ''audio''] [''work'', ''ref''] ''b.wav'' example_world)) = FailedToTranscribe ''b.wav''
   \<and> last (console (processFile (environment conforming_shell (ResultStream example_events None))
          [''work'', ''audio''] [''work'', ''ref''] ''b.wav'' blocked_world))
       = ErrorProcessing ''b.wav'' (SystemError ENOTDIR)
   \<and> last (console (processFile (environment mute_metrics_shell (ResultStream example_events None))
          [''work'', ''audio''] [''work'', ''gold''] ''b.wav'' example_world))
       = FailedToCalculateMetrics ''b.wav''"
proof -
  let ?E = "environment converting_shell (ResultStream example_events None)"
  let ?p = "[''work'', ''audio'', ''b.wav'']"
  have wd: "stat (files example_world) (cwd ?E) = Some Dir"
    by code_simp
  have one: "truthy (argument [''node'', ''evaluate.js'', ''audio''] 2) = None
      \<or> truthy (argument [''node'', ''evaluate.js'', ''audio''] 3) = None"
    by code_simp
  have two: "truthy (argument [''node'', ''evaluate.js'', ''audio'', ''missing''] 2) = Some ''audio''
      \<and> truthy (argument [''node'', ''evaluate.js'', ''audio'', ''missing''] 3) = Some ''missing''
      \<and> (\<not> existsSync (files (loaded ?E example_world)) (resolve (cwd ?E) ''audio'')
          \<or> \<not> existsSync (files (loaded ?E example_world)) (resolve (cwd ?E) ''missing''))"
    by code_simp
  have three: "truthy (argument [''node'', ''evaluate.js'', ''audio'', ''ref''] 2) = Some ''audio''
      \<and> truthy (argument [''node'', ''evaluate.js'', ''audio'', ''ref''] 3) = Some ''ref''
      \<and> existsSync (files (loaded ?E example_world)) (resolve (cwd ?E) ''ref'')
      \<and> readdirSync (resolve (cwd ?E) ''audio'') (files (loaded ?E example_world))
          = Inr [''a.mp3'', ''b.wav'']
      \<and> openAppend (join (cwd ?E) RESULTS_FILE) (files (loaded ?E example_world))
          = Inr (([''work'', ''results.txt''], File []) # example_files)"
    by code_simp
  have listing: "filter supported [''a.mp3'', ''b.wav''] = [''a.mp3'', ''b.wav'']"
    by code_simp
  have start: "console example_world = []"
    by (simp add: example_world_def)
  have a: "script ?E [''node'', ''evaluate.js'', ''audio''] example_world
      = (Exited 1, say Usage (loaded ?E example_world))"
    using C8_exit_codes [OF wd, THEN conjunct1, THEN mp, OF one] by simp
  have b: "script ?E [''node'', ''evaluate.js'', ''audio'', ''missing''] example_world
      = (Exited 1, say DirectoriesDoNotExist (loaded ?E example_world))"
    using C8_exit_codes [OF wd, THEN conjunct2, THEN conjunct1, THEN mp, OF two] by simp
  have c: "exitCode (fst (script ?E [''node'', ''evaluate.js'', ''audio'', ''ref''] example_world)) = 0
      \<and> processed (console (snd (script ?E [''node'', ''evaluate.js'', ''audio'', ''ref''] example_world)))
          = [''a.mp3'', ''b.wav'']"
    using C8_exit_codes [OF wd, THEN conjunct2, THEN conjunct2, THEN conjunct1, THEN mp, OF three,
        THEN conjunct2]
      listing start
    by simp

  let ?Ea = "environment failing_shell (ResultStream example_events None)"
  have wda: "stat (files example_world) (cwd ?Ea) = Some Dir"
    by code_simp
  have "fst (ensureAudioCompatibility ?Ea (join [''work'', ''audio''] ''a.mp3'')
               (say (Processing ''a.mp3'') example_world)) = None"
    by code_simp
  then have skip: "ensureAudioCompatibility ?Ea (join [''work'', ''audio''] ''a.mp3'')
               (say (Processing ''a.mp3'') example_world)
      = (None, snd (ensureAudioCompatibility ?Ea (join [''work'', ''audio''] ''a.mp3'')
               (say (Processing ''a.mp3'') example_world)))"
    by (simp add: prod_eq_iff)
  have d: "last (console (processFile ?Ea [''work'', ''audio''] [''work'', ''ref''] ''a.mp3'' example_world))
      = SkippingFile ''a.mp3''"
    using C8_exit_codes [OF wda, THEN conjunct2, THEN conjunct2, THEN conjunct2, THEN conjunct2,
        THEN conjunct1, THEN mp, OF skip, of "[''work'', ''ref'']"]
    by simp

  let ?Eb = "environment conforming_shell (SendFailed (ServiceError ''down''))"
  let ?vb = "snd (ensureAudioCompatibility ?Eb (join [''work'', ''audio''] ''b.wav'')
               (say (Processing ''b.wav'') example_world))"
  have wdb: "stat (files example_world) (cwd ?Eb) = Some Dir"
    by code_simp
  have "fst (ensureAudioCompatibility ?Eb (join [''work'', ''audio''] ''b.wav'')
               (say (Processing ''b.wav'') example_world)) = Some ?p"
    by code_simp
  then have readyb: "ensureAudioCompatibility ?Eb (join [''work'', ''audio''] ''b.wav'')
               (say (Processing ''b.wav'') example_world) = (Some ?p, ?vb)"
    by (simp add: prod_eq_iff)
  have "truthy (fst (transcribeAudio ?Eb ?p ?vb)) = None"
    by code_simp
  with readyb have failed: "ensureAudioCompatibility ?Eb (join [''work'', ''audio''] ''b.wav'')
               (say (Processing ''b.wav'') example_world) = (Some ?p, ?vb)
      \<and> transcribeAudio ?Eb ?p ?vb
          = (fst (transcribeAudio ?Eb ?p ?vb), snd (transcribeAudio ?Eb ?p ?vb))
      \<and> truthy (fst (transcribeAudio ?Eb ?p ?vb)) = None"
    by simp
  have e: "last (console (processFile ?Eb [''work'', ''audio''] [''work'', ''ref''] ''b.wav'' example_world))
      = FailedToTranscribe ''b.wav''"
    using C8_exit_codes [OF wdb, THEN conjunct2, THEN conjunct2, THEN conjunct2, THEN conjunct2,
        THEN conjunct2, THEN conjunct1, THEN mp, OF failed, of "[''work'', ''ref'']"]
    by simp

  let ?Ec = "environment conforming_shell (ResultStream example_events None)"
  let ?vc = "snd (ensureAudioCompatibility ?Ec (join [''work'', ''audio''] ''b.wav'')
               (say (Processing ''b.wav'') blocked_world))"
  have wdc: "stat (files blocked_world) (cwd ?Ec) = Some Dir"
    by code_simp
  have "fst (ensureAudioCompatibility ?Ec (join [''work'', ''audio''] ''b.wav'')
               (say (Processing ''b.wav'') blocked_world)) = Some ?p"
    by code_simp
  then have readyc: "ensureAudioCompatibility ?Ec (join [''work'', ''audio''] ''b.wav'')
               (say (Processing ''b.wav'') blocked_world) = (Some ?p, ?vc)"
    by (simp add: prod_eq_iff)
  have "truthy (fst (transcribeAudio ?Ec ?p ?vc)) = Some ''hello world''"
    and "writeFileSync (outputPathOf ?Ec ''b.wav'') ''hello world''
           (files (snd (transcribeAudio ?Ec ?p ?vc))) = Inl ENOTDIR"
    by code_simp+
  with readyc have blocked: "ensureAudioCompatibility ?Ec (join [''work'', ''audio''] ''b.wav'')
               (say (Processing ''b.wav'') blocked_world) = (Some ?p, ?vc)
      \<and> transcribeAudio ?Ec ?p ?vc
          = (fst (transcribeAudio ?Ec ?p ?vc), snd (transcribeAudio ?Ec ?p ?vc))
      \<and> truthy (fst (transcribeAudio ?Ec ?p ?vc)) = Some ''hello world''
      \<and> writeFileSync (outputPathOf ?Ec ''b.wav'') ''hello world''
           (files (snd (transcribeAudio ?Ec ?p ?vc))) = Inl ENOTDIR"
    by simp
  have f: "last (console (processFile ?Ec [''work'', ''audio''] [''work'', ''ref''] ''b.wav'' blocked_world))
      = ErrorProcessing ''b.wav'' (SystemError ENOTDIR)"
    using C8_exit_codes [OF wdc, THEN conjunct2, THEN conjunct2, THEN conjunct2, THEN conjunct2,
        THEN conjunct2, THEN conjunct2, THEN conjunct1, THEN mp, OF blocked, of "[''work'', ''ref'']"]
    by simp

  let ?Ed = "environment mute_metrics_shell (ResultStream example_events None)"
  let ?vd = "snd (ensureAudioCompatibility ?Ed (join [''work'', ''audio''] ''b.wav'')
               (say (Processing ''b.wav'') example_world))"
  let ?v2 = "snd (transcribeAudio ?Ed ?p ?vd)"
  let ?f3 = "AList.update [''work'', ''output'', ''b.txt''] (File ''hello world'') example_files"
  let ?m = "calculateMetrics ?Ed (referencePathOf [''work'', ''gold''] ''b.wav'')
              (outputPathOf ?Ed ''b.wav'')
              (say (TranscriptionCompleted (outputPathOf ?Ed ''b.wav'')) (?v2\<lparr>files := ?f3\<rparr>))"
  have wdd: "stat (files example_world) (cwd ?Ed) = Some Dir"
    by code_simp
  have "fst (ensureAudioCompatibility ?Ed (join [''work'', ''audio''] ''b.wav'')
               (say (Processing ''b.wav'') example_world)) = Some ?p"
    by code_simp
  then have readyd: "ensureAudioCompatibility ?Ed (join [''work'', ''audio''] ''b.wav'')
               (say (Processing ''b.wav'') example_world) = (Some ?p, ?vd)"
    by (simp add: prod_eq_iff)
  have "truthy (fst (transcribeAudio ?Ed ?p ?vd)) = Some ''hello world''"
    and "writeFileSync (outputPathOf ?Ed ''b.wav'') ''hello world'' (files ?v2) = Inr ?f3"
    and "existsSync ?f3 (referencePathOf [''work'', ''gold''] ''b.wav'')"
    and "truthy (fst ?m) = None"
    by code_simp+
  with readyd have mute: "ensureAudioCompatibility ?Ed (join [''work'', ''audio''] ''b.wav'')
               (say (Processing ''b.wav'') example_world) = (Some ?p, ?vd)
      \<and> transcribeAudio ?Ed ?p ?vd = (fst (transcribeAudio ?Ed ?p ?vd), ?v2)
      \<and> truthy (fst (transcribeAudio ?Ed ?p ?vd)) = Some ''hello world''
      \<and> writeFileSync (outputPathOf ?Ed ''b.wav'') ''hello world'' (files ?v2) = Inr ?f3
      \<and> existsSync ?f3 (referencePathOf [''work'', ''gold''] ''b.wav'')
      \<and> ?m = (fst ?m, snd ?m)
      \<and> truthy (fst ?m) = None"
    by simp
  have g: "last (console (processFile ?Ed [''work'', ''audio''] [''work'', ''gold''] ''b.wav'' example_world))
      = FailedToCalculateMetrics ''b.wav''"
    using C8_exit_codes [OF wdd, THEN conjunct2, THEN conjunct2, THEN conjunct2, THEN conjunct2,
        THEN conjunct2, THEN conjunct2, THEN conjunct2, THEN mp, OF mute]
    by simp
  from a b c d e f g show ?thesis by simp
qed

text \<open>
  The claim as worded fails when the audio argument names an existing file that is not a
  directory: both paths exist, \<^verbatim>\<open>results.txt\<close> is created, the listing throws, the
  promise of \<^verbatim>\<open>main\<close> rejects and the process ends with code 1, having processed nothing.
\<close>

theorem C8_audio_path_is_file_counterexample:
  "existsSync (files example_world) (resolve [''work''] ''notes'')
   \<and> existsSync (files example_world) (resolve [''work''] ''ref'')
   \<and> fst (script (environment converting_shell (ResultStream example_events None))
            [''node'', ''evaluate.js'', ''notes'', ''ref''] example_world)
       = Rejected (SystemError ENOTDIR)
   \<and> exitCode (fst (script (environment converting_shell (ResultStream example_events None))
            [''node'', ''evaluate.js'', ''notes'', ''ref''] example_world)) = 1
   \<and> processed (console (snd (script (environment converting_shell (ResultStream example_events None))
            [''node'', ''evaluate.js'', ''notes'', ''ref''] example_world))) = []
   \<and> existsSync (files (snd (script (environment converting_shell (ResultStream example_events None))
            [''node'', ''evaluate.js'', ''notes'', ''ref''] example_world)))
         [''work'', ''results.txt'']"
  by code_simp

lemma script_makes_output:
  "fst (script (environment converting_shell (ResultStream example_events None))
          [''node'', ''evaluate.js'', ''output'', ''ref''] bare_world) = Returned
   \<and> stat (files (snd (script (environment converting_shell (ResultStream example_events None))
          [''node'', ''evaluate.js'', ''output'', ''ref''] bare_world))) [''work'', ''output'']
       = Some Dir"
  by code_simp


end
